theory Spec2Isabelle
  imports Main "HOL-Library.Sublist"
begin

section \<open>Strings and values of the Python source\<close>

text \<open>
  A Python \<open>str\<close> is modelled by its UTF-8 bytes (\<open>string\<close>, a list of 8-bit characters):
  concatenation and comparison agree with Python's on well-formed text, and
  \<open>urllib.parse.quote\<close> works on exactly these bytes.  A value that is either a
  \<open>str\<close> or \<open>None\<close> is a \<open>string option\<close>.
\<close>

definition py_str :: "string option \<Rightarrow> string" where
  \<comment> \<open>what an f-string placeholder \<open>{v}\<close> inserts for a str-or-None value\<close>
  "py_str v = (case v of None \<Rightarrow> ''None'' | Some s \<Rightarrow> s)"

definition digit_char :: "nat \<Rightarrow> char" where
  "digit_char d = char_of (48 + d)"

fun digits :: "nat \<Rightarrow> string" where
  "digits n = (if n < 10 then [digit_char n] else digits (n div 10) @ [digit_char (n mod 10)])"

definition str_int :: "int \<Rightarrow> string" where
  \<comment> \<open>\<open>str(n)\<close> of a Python int, as an f-string placeholder inserts it\<close>
  "str_int i = (if i < 0 then CHR ''-'' # digits (nat (- i)) else digits (nat i))"

fun join :: "string \<Rightarrow> string list \<Rightarrow> string" where
  \<comment> \<open>\<open>sep.join(xs)\<close>\<close>
  "join sep [] = []"
| "join sep [x] = x"
| "join sep (x # y # ys) = x @ sep @ join sep (y # ys)"

section \<open>urllib.parse.quote with its default arguments\<close>

text \<open>
  \<open>quote(s)\<close> is the standard library's, called with \<open>safe='/'\<close> (the default): the
  string is encoded as UTF-8 and every byte outside the ASCII letters, digits,
  \<open>_ . - ~\<close> and \<open>/\<close> is replaced by \<open>%XX\<close> with upper-case hexadecimal digits.
\<close>

definition always_safe :: "char set" where
  "always_safe = set (''ABCDEFGHIJKLMNOPQRSTUVWXYZ'' @ ''abcdefghijklmnopqrstuvwxyz''
                      @ ''0123456789'' @ ''_.-~'')"

definition hex_digit :: "nat \<Rightarrow> char" where
  "hex_digit d = ''0123456789ABCDEF'' ! d"

definition quote_byte :: "char \<Rightarrow> string" where
  "quote_byte c =
     (if c \<in> always_safe \<or> c = CHR ''/'' then [c]
      else [CHR ''%'', hex_digit (of_char c div 16), hex_digit (of_char c mod 16)])"

definition quote :: "string \<Rightarrow> string" where
  "quote s = concat (map quote_byte s)"

section \<open>The parsed document (BeautifulSoup tree)\<close>

text \<open>
  A tag has a name, its attributes and its contents in document order; a text node
  carries its string.  The parsed document itself is a tag (named \<open>[document]\<close>)
  whose contents are the top-level nodes.
\<close>

datatype node = Tag string "(string \<times> string) list" "node list" | NavigableString string

fun descendants :: "node \<Rightarrow> node list" where
  \<comment> \<open>all nodes below a node, in document order\<close>
  "descendants (NavigableString s) = []"
| "descendants (Tag nm ats cs) = concat (map (\<lambda>c. c # descendants c) cs)"

fun is_tag :: "string \<Rightarrow> node \<Rightarrow> bool" where
  "is_tag nm (Tag n ats cs) = (n = nm)"
| "is_tag nm (NavigableString s) = False"

definition find_all :: "string \<Rightarrow> node \<Rightarrow> node list" where
  \<comment> \<open>\<open>e.find_all(nm)\<close>: every descendant tag of that name, recursively\<close>
  "find_all nm e = filter (is_tag nm) (descendants e)"

definition find_tag :: "string \<Rightarrow> node \<Rightarrow> node option" where
  \<comment> \<open>\<open>e.find(nm)\<close>, also written \<open>e.NAME\<close>: the first such descendant, or None\<close>
  "find_tag nm e = (case find_all nm e of [] \<Rightarrow> None | x # xs \<Rightarrow> Some x)"

fun get_string :: "node \<Rightarrow> string option" where
  \<comment> \<open>the \<open>.string\<close> property: the single string below a node, None unless every level
      down to it has exactly one child\<close>
  "get_string (NavigableString s) = Some s"
| "get_string (Tag nm ats [c]) = get_string c"
| "get_string (Tag nm ats cs) = None"

fun get_attr :: "string \<Rightarrow> node \<Rightarrow> string option" where
  \<comment> \<open>\<open>e[k]\<close>; None stands for the KeyError of a missing attribute\<close>
  "get_attr k (Tag nm ats cs) = map_of ats k"
| "get_attr k (NavigableString s) = None"

section \<open>CFRToMd.process_cfr_xml_element\<close>

definition render_title :: "node \<Rightarrow> string option" where
  \<comment> \<open>\<open>title = element.HEAD.string if element.HEAD else "NO TITLE"\<close>; a tag is always truthy\<close>
  "render_title element =
     (case find_tag ''HEAD'' element of Some h \<Rightarrow> get_string h | None \<Rightarrow> Some ''NO TITLE'')"

definition paragraph_text :: "node \<Rightarrow> string" where
  \<comment> \<open>one turn of the loop over the P tags: \<open>p.string\<close> if it is a non-empty string,
      a newline otherwise\<close>
  "paragraph_text p =
     (case get_string p of
        Some s \<Rightarrow> (if s \<noteq> [] then s else ''\<newline>'')
      | None \<Rightarrow> ''\<newline>'')"

definition render_text :: "node \<Rightarrow> string" where
  "render_text element = join ''\<newline>'' (map paragraph_text (find_all ''P'' element))"

definition render_citation :: "node \<Rightarrow> string option" where
  \<comment> \<open>\<open>citation = element.CITA.string if element.CITA else "NO CITE"\<close>\<close>
  "render_citation element =
     (case find_tag ''CITA'' element of Some c \<Rightarrow> get_string c | None \<Rightarrow> Some ''NO CITE'')"

definition process_cfr_xml_element :: "node \<Rightarrow> string" where
  \<comment> \<open>the triple-quoted f-string, with the indentation of its lines\<close>
  "process_cfr_xml_element element =
     ''\<newline>    # '' @ py_str (render_title element) @ ''\<newline>    \<newline>    ''
     @ render_text element @ ''\<newline>    \<newline>    **''
     @ py_str (render_citation element) @ ''**\<newline>    ''"

section \<open>The deep-link builders\<close>

definition get_ecfr_link_to_appendix ::
  "int \<Rightarrow> string \<Rightarrow> string \<Rightarrow> string \<Rightarrow> string \<Rightarrow> string \<Rightarrow> string" where
  "get_ecfr_link_to_appendix title_num subtitle_num chapter_num part_num subpart_num appendix_num =
     ''https://www.ecfr.gov/current/title-'' @ str_int title_num @ ''/subtitle-'' @ subtitle_num
     @ ''/chapter-'' @ chapter_num @ ''/part-'' @ part_num @ ''/subpart-'' @ subpart_num
     @ ''/appendix-'' @ quote appendix_num"

definition get_ecfr_link_to_section ::
  "int \<Rightarrow> string \<Rightarrow> string \<Rightarrow> string \<Rightarrow> string \<Rightarrow> string \<Rightarrow> string" where
  "get_ecfr_link_to_section title_num subtitle_num chapter_num part_num subpart_num section_num =
     ''https://www.ecfr.gov/current/title-'' @ str_int title_num @ ''/subtitle-'' @ subtitle_num
     @ ''/chapter-'' @ chapter_num @ ''/part-'' @ part_num @ ''/subpart-'' @ subpart_num
     @ ''/section-'' @ quote section_num"

section \<open>pathlib.Path\<close>

text \<open>
  \<open>Path(s)\<close> on a POSIX system is kept as its parts: the string is split at the slashes,
  empty components and \<open>.\<close> components are dropped (\<open>..\<close> is kept), and a leading slash
  gives the root as first part (two leading slashes, and only two, give the root
  \<open>//\<close>).  Two paths are the same path when their parts are the same.
\<close>

type_synonym path = "string list"

fun split_slash :: "string \<Rightarrow> string list" where
  \<comment> \<open>\<open>s.split('/')\<close>\<close>
  "split_slash [] = [[]]"
| "split_slash (c # cs) =
     (if c = CHR ''/'' then [] # split_slash cs
      else (case split_slash cs of x # xs \<Rightarrow> (c # x) # xs | [] \<Rightarrow> [[c]]))"

definition Path :: "string \<Rightarrow> path" where
  "Path s =
     (if take 2 s = ''//'' \<and> take 3 s \<noteq> ''///'' then [''//'']
      else if take 1 s = ''/'' then [''/''] else [])
     @ filter (\<lambda>c. c \<noteq> [] \<and> c \<noteq> ''.'') (split_slash s)"

section \<open>Effects and exceptions\<close>

text \<open>
  What the program does to the outside world is recorded as a trace of events, in the
  order of the source's statements.  A function that can raise returns the events it
  performed before the exception together with the exception.  The object passed to
  \<open>json.dumps(result, indent=4)\<close> is kept as it is in the \<open>WriteJson\<close> event; creating a
  missing parent directory (\<open>if not f.parent.exists(): f.parent.mkdir(parents=True)\<close>)
  is one \<open>MakeParent\<close> event.  \<open>mkdir\<close> and \<open>write_text\<close> are taken to succeed: an
  OSError of the file system is outside the model.
\<close>

datatype error = KeyError string | AttributeError string | TypeError string
  | HTTPError int | JSONError

datatype json = JInt int | JStr string | JNull

record document =
  page_content :: string
  metadata :: "(string \<times> json) list"

datatype event = Print string | HttpGet string | MakeParent path
  | WriteText path string | WriteJson path document

type_synonym outcome = "event list \<times> error option"

definition json_of :: "string option \<Rightarrow> json" where
  \<comment> \<open>a str-or-None value inside the metadata dict\<close>
  "json_of v = (case v of None \<Rightarrow> JNull | Some s \<Rightarrow> JStr s)"

definition emit :: "event list \<Rightarrow> outcome \<Rightarrow> outcome" where
  \<comment> \<open>statements without exceptions, followed by the rest\<close>
  "emit evs rest = (case rest of (evs', r) \<Rightarrow> (evs @ evs', r))"

definition and_then :: "outcome \<Rightarrow> outcome \<Rightarrow> outcome" where
  \<comment> \<open>two statements in sequence: the second runs only if the first did not raise\<close>
  "and_then a b = (case a of (evs, Some e) \<Rightarrow> (evs, Some e) | (evs, None) \<Rightarrow> emit evs b)"

fun for_each :: "'a list \<Rightarrow> ('a \<Rightarrow> outcome) \<Rightarrow> outcome" where
  \<comment> \<open>a \<open>for\<close> loop over a list: an exception in the body ends the loop\<close>
  "for_each [] body = ([], None)"
| "for_each (x # xs) body = and_then (body x) (for_each xs body)"

definition subscript :: "node \<Rightarrow> string \<Rightarrow> (string \<Rightarrow> outcome) \<Rightarrow> outcome" where
  \<comment> \<open>\<open>v = e[k]\<close> followed by the rest; KeyError when the attribute is missing\<close>
  "subscript e k rest = (case get_attr k e of None \<Rightarrow> ([], Some (KeyError k)) | Some v \<Rightarrow> rest v)"

section \<open>CFRParser: the title listing and the raw XML\<close>

datatype DateChoice = LATEST_ISSUE_DATE | LATEST_AMENDED_ON

record title_entry =
  number :: int
  latest_issue_date :: "string option"
  latest_amended_on :: "string option"

text \<open>
  An HTTP response: its status, its body, and its body read as JSON: either it is not
  JSON, or it is an object with or without a \<open>titles\<close> list.  The remote side is a
  function from the requested URL to the response; a request that gets no response at
  all (a connection error raised by \<open>requests.get\<close>) is outside the model.
\<close>

datatype json_body = NotJSON | JSONObject "title_entry list option"

record response =
  status_code :: int
  response_text :: string
  response_json :: json_body

record env =
  http :: "string \<Rightarrow> response"
  files :: "path \<rightharpoonup> string"

fun date_of :: "DateChoice \<Rightarrow> title_entry \<Rightarrow> string option" where
  \<comment> \<open>\<open>title[date_choice.value]\<close>\<close>
  "date_of LATEST_ISSUE_DATE t = latest_issue_date t"
| "date_of LATEST_AMENDED_ON t = latest_amended_on t"

fun find_title :: "title_entry list \<Rightarrow> int \<Rightarrow> DateChoice \<Rightarrow> string option" where
  \<comment> \<open>the loop over the titles: the first entry with that number, None after the loop\<close>
  "find_title [] title_number date_choice = None"
| "find_title (t # ts) title_number date_choice =
     (if number t = title_number then date_of date_choice t
      else find_title ts title_number date_choice)"

definition titles_url :: string where
  "titles_url = ''https://www.ecfr.gov/api/versioner/v1/titles''"

definition get_title_date :: "env \<Rightarrow> int \<Rightarrow> DateChoice \<Rightarrow> event list \<times> (error + string option)" where
  "get_title_date w title_number date_choice =
     (let response = http w titles_url in
      if 400 \<le> status_code response \<and> status_code response < 600
      then ([HttpGet titles_url], Inl (HTTPError (status_code response)))
      else (case response_json response of
              NotJSON \<Rightarrow> ([HttpGet titles_url], Inl JSONError)
            | JSONObject None \<Rightarrow> ([HttpGet titles_url], Inl (KeyError ''titles''))
            | JSONObject (Some titles) \<Rightarrow>
                ([HttpGet titles_url], Inr (find_title titles title_number date_choice))))"

definition title_xml_url :: "string option \<Rightarrow> int \<Rightarrow> string" where
  \<comment> \<open>\<open>base_url + endpoint\<close>\<close>
  "title_xml_url date title =
     ''https://www.ecfr.gov/api/versioner/v1/full/'' @ py_str date @ ''/title-'' @ str_int title @ ''.xml''"

definition get_cfr_title_xml :: "env \<Rightarrow> int \<Rightarrow> event list \<times> (error + string option)" where
  "get_cfr_title_xml w title =
     (case get_title_date w title LATEST_ISSUE_DATE of
        (evs, Inl e) \<Rightarrow> (evs, Inl e)
      | (evs, Inr date) \<Rightarrow>
          (let url = title_xml_url date title;
               response = http w url in
           if status_code response = 200
           then (evs @ [Print (''Request file from '' @ url), HttpGet url], Inr (Some (response_text response)))
           else (evs @ [Print (''Request file from '' @ url), HttpGet url,
                        Print (''Request failed with status code: '' @ str_int (status_code response))],
                 Inr None)))"

section \<open>CFRParser: the hierarchy walk\<close>

definition description :: "node \<Rightarrow> string option" where
  \<comment> \<open>\<open>x.HEAD.string if x.HEAD else ""\<close>\<close>
  "description x = (case find_tag ''HEAD'' x of Some h \<Rightarrow> get_string h | None \<Rightarrow> Some [])"

definition section_file ::
  "int \<Rightarrow> string \<Rightarrow> string \<Rightarrow> string \<Rightarrow> string \<Rightarrow> string \<Rightarrow> string \<Rightarrow> path" where
  "section_file title_num subtitle_number chapt_number subchapter_number part_number
       sub_part_number section_number =
     Path (''./documents/title_'' @ str_int title_num @ ''/subtitle_'' @ subtitle_number
           @ ''/chap_'' @ chapt_number @ ''/subchapt_'' @ subchapter_number @ ''/part_''
           @ part_number @ ''/subpart_'' @ sub_part_number @ ''/'' @ quote section_number @ ''.json'')"

definition appendix_file ::
  "int \<Rightarrow> string \<Rightarrow> string \<Rightarrow> string \<Rightarrow> string \<Rightarrow> string \<Rightarrow> string \<Rightarrow> path" where
  "appendix_file title_num subtitle_number chapt_number subchapter_number part_number
       sub_part_number appendix_number =
     Path (''./documents/title_'' @ str_int title_num @ ''/subtitle_'' @ subtitle_number
           @ ''/chap_'' @ chapt_number @ ''/subchapt_'' @ subchapter_number @ ''/part_''
           @ part_number @ ''/subpart_'' @ sub_part_number @ ''/'' @ quote appendix_number @ ''.json'')"

text \<open>
  The loops of \<open>fetch_and_parse_cfr_xml\<close>, innermost first.  Each takes the loop
  variables of the enclosing loops as arguments, in the order the source binds them.
\<close>

definition walk_section ::
  "int \<Rightarrow> string option \<Rightarrow> string \<Rightarrow> string \<Rightarrow> string option \<Rightarrow> string \<Rightarrow> string option
   \<Rightarrow> string \<Rightarrow> string option \<Rightarrow> string \<Rightarrow> string option \<Rightarrow> node \<Rightarrow> outcome" where
  "walk_section title_num title_description subtitle_number chapt_number chapt_description
       subchapter_number subchapter_description part_number part_description
       sub_part_number sub_part_description section =
     subscript section ''N'' (\<lambda>section_number.
       let section_description = description section;
           ecfr_link = get_ecfr_link_to_section title_num subtitle_number chapt_number
                         part_number sub_part_number section_number;
           metadata =
             [(''title_number'', JInt title_num),
              (''title_description'', json_of title_description),
              (''chapter_number'', JStr chapt_number),
              (''chapter_description'', json_of chapt_description),
              (''subchapter_number'', JStr subchapter_number),
              (''subchapter_description'', json_of subchapter_description),
              (''part_number'', JStr part_number),
              (''part_description'', json_of part_description),
              (''sub_part_number'', JStr sub_part_number),
              (''sub_part_description'', json_of sub_part_description),
              (''section_number'', JStr section_number),
              (''section_description'', json_of section_description),
              (''url'', JStr ecfr_link)];
           result = \<lparr>page_content = process_cfr_xml_element section
                                       @ ''\<newline>\<newline>__'' @ ecfr_link @ ''__'',
                     metadata = metadata\<rparr>;
           section_file = section_file title_num subtitle_number chapt_number subchapter_number
                            part_number sub_part_number section_number
       in ([MakeParent section_file, WriteJson section_file result], None))"

definition walk_appendix ::
  "int \<Rightarrow> string option \<Rightarrow> string \<Rightarrow> string \<Rightarrow> string option \<Rightarrow> string \<Rightarrow> string option
   \<Rightarrow> string \<Rightarrow> string option \<Rightarrow> string \<Rightarrow> string option \<Rightarrow> node \<Rightarrow> outcome" where
  "walk_appendix title_num title_description subtitle_number chapt_number chapt_description
       subchapter_number subchapter_description part_number part_description
       sub_part_number sub_part_description appendix =
     subscript appendix ''N'' (\<lambda>appendix_number.
       let appendix_description = description appendix;
           ecfr_link = get_ecfr_link_to_appendix title_num subtitle_number chapt_number
                         part_number sub_part_number appendix_number;
           metadata =
             [(''title_number'', JInt title_num),
              (''title_description'', json_of title_description),
              (''chapter_number'', JStr chapt_number),
              (''chapter_description'', json_of chapt_description),
              (''subchapter_number'', JStr subchapter_number),
              (''subchapter_description'', json_of subchapter_description),
              (''part_number'', JStr part_number),
              (''part_description'', json_of part_description),
              (''sub_part_number'', JStr sub_part_number),
              (''sub_part_description'', json_of sub_part_description),
              (''appendix_number'', JStr appendix_number),
              (''appendix_description'', json_of appendix_description),
              (''url'', JStr ecfr_link)];
           result = \<lparr>page_content = process_cfr_xml_element appendix
                                       @ ''\<newline>\<newline>__'' @ ecfr_link @ ''__'',
                     metadata = metadata\<rparr>;
           appendix_file = appendix_file title_num subtitle_number chapt_number subchapter_number
                             part_number sub_part_number appendix_number
       in ([MakeParent appendix_file, WriteJson appendix_file result], None))"

definition walk_sub_part ::
  "int \<Rightarrow> string option \<Rightarrow> string \<Rightarrow> string \<Rightarrow> string option \<Rightarrow> string \<Rightarrow> string option
   \<Rightarrow> string \<Rightarrow> string option \<Rightarrow> node \<Rightarrow> outcome" where
  "walk_sub_part title_num title_description subtitle_number chapt_number chapt_description
       subchapter_number subchapter_description part_number part_description sub_part =
     subscript sub_part ''N'' (\<lambda>sub_part_number.
       let sub_part_description = description sub_part in
       emit [Print (''Sub part '' @ sub_part_number @ '': '' @ py_str sub_part_description)]
         (and_then
            (for_each (find_all ''DIV8'' sub_part)
               (walk_section title_num title_description subtitle_number chapt_number
                  chapt_description subchapter_number subchapter_description part_number
                  part_description sub_part_number sub_part_description))
            (for_each (find_all ''DIV9'' sub_part)
               (walk_appendix title_num title_description subtitle_number chapt_number
                  chapt_description subchapter_number subchapter_description part_number
                  part_description sub_part_number sub_part_description))))"

definition walk_part ::
  "node \<Rightarrow> int \<Rightarrow> string option \<Rightarrow> string \<Rightarrow> string \<Rightarrow> string option \<Rightarrow> string \<Rightarrow> string option
   \<Rightarrow> node \<Rightarrow> outcome" where
  "walk_part root title_num title_description subtitle_number chapt_number chapt_description
       subchapter_number subchapter_description part =
     subscript part ''N'' (\<lambda>part_number.
       let part_description = description part in
       emit [Print (''Part '' @ part_number @ '' - '' @ py_str part_description)]
         (for_each (find_all ''DIV6'' root)
            (walk_sub_part title_num title_description subtitle_number chapt_number
               chapt_description subchapter_number subchapter_description part_number
               part_description)))"

definition walk_subchapter ::
  "node \<Rightarrow> int \<Rightarrow> string option \<Rightarrow> string \<Rightarrow> string \<Rightarrow> string option \<Rightarrow> node \<Rightarrow> outcome" where
  "walk_subchapter root title_num title_description subtitle_number chapt_number
       chapt_description subchapter =
     subscript subchapter ''N'' (\<lambda>subchapter_number.
       let subchapter_description = description subchapter in
       emit [Print (''Subchapter '' @ subchapter_number @ '' - '' @ py_str subchapter_description)]
         (for_each (find_all ''DIV5'' root)
            (walk_part root title_num title_description subtitle_number chapt_number
               chapt_description subchapter_number subchapter_description)))"

definition walk_chapter :: "node \<Rightarrow> int \<Rightarrow> string option \<Rightarrow> string \<Rightarrow> node \<Rightarrow> outcome" where
  "walk_chapter root title_num title_description subtitle_number chapter =
     subscript chapter ''N'' (\<lambda>chapt_number.
       let chapt_description = description chapter in
       emit [Print (''Subchapter '' @ chapt_number @ '' - '' @ py_str chapt_description)]
         (for_each (find_all ''DIV4'' chapter)
            (walk_subchapter root title_num title_description subtitle_number chapt_number
               chapt_description)))"

definition walk_subtitle :: "node \<Rightarrow> int \<Rightarrow> string option \<Rightarrow> node \<Rightarrow> outcome" where
  "walk_subtitle root title_num title_description subtitle =
     subscript subtitle ''N'' (\<lambda>subtitle_number.
       let subtitle_description = description subtitle in
       emit [Print (''Subtitle '' @ subtitle_number @ '' - '' @ py_str subtitle_description)]
         (for_each (find_all ''DIV3'' subtitle)
            (walk_chapter root title_num title_description subtitle_number)))"

definition walk :: "node \<Rightarrow> int \<Rightarrow> outcome" where
  \<comment> \<open>\<open>fetch_and_parse_cfr_xml\<close> from \<open>title = root.find("DIV1")\<close> on; \<open>title.HEAD\<close> of a
      missing title raises AttributeError\<close>
  "walk root title_num =
     (case find_tag ''DIV1'' root of
        None \<Rightarrow> ([], Some (AttributeError ''HEAD''))
      | Some title \<Rightarrow>
          (let title_description = description title in
           emit [Print (''Title description: '' @ py_str title_description)]
             (for_each (find_all ''DIV2'' root) (walk_subtitle root title_num title_description))))"

definition cache_file :: "int \<Rightarrow> path" where
  "cache_file title_num = Path (''./cache/title'' @ str_int title_num @ ''.xml'')"

definition fetch_and_parse_cfr_xml :: "(string \<Rightarrow> node) \<Rightarrow> env \<Rightarrow> int \<Rightarrow> outcome" where
  \<comment> \<open>the first argument is \<open>BeautifulSoup(xml_data, features="xml")\<close>, the library's parser;
      \<open>write_text\<close> of None raises TypeError before it opens the file\<close>
  "fetch_and_parse_cfr_xml parse_xml w title_num =
     (let file_path = cache_file title_num in
      case files w file_path of
        Some xml_data \<Rightarrow>
          emit [Print ''File in cache'',
                Print (''XML loaded for title '' @ str_int title_num)]
            (walk (parse_xml xml_data) title_num)
      | None \<Rightarrow>
          (case get_cfr_title_xml w title_num of
             (evs, Inl e) \<Rightarrow>
               (Print ''File not in cache. Retrieve.'' # MakeParent file_path # evs, Some e)
           | (evs, Inr None) \<Rightarrow>
               (Print ''File not in cache. Retrieve.'' # MakeParent file_path # evs,
                Some (TypeError ''data must be str, not NoneType''))
           | (evs, Inr (Some xml_data)) \<Rightarrow>
               emit (Print ''File not in cache. Retrieve.'' # MakeParent file_path # evs
                     @ [WriteText file_path xml_data,
                        Print (''XML loaded for title '' @ str_int title_num)])
                 (walk (parse_xml xml_data) title_num)))"

section \<open>Observations on a trace\<close>

fun json_writes :: "event list \<Rightarrow> (path \<times> document) list" where
  \<comment> \<open>the output files written, in order: path and document\<close>
  "json_writes [] = []"
| "json_writes (WriteJson f d # evs) = (f, d) # json_writes evs"
| "json_writes (ev # evs) = json_writes evs"

definition subchapter_iterations :: "node \<Rightarrow> node list" where
  \<comment> \<open>the subchapter nodes the three outer loops reach, one entry per turn of the third\<close>
  "subchapter_iterations root =
     concat (map (\<lambda>subtitle. concat (map (find_all ''DIV4'') (find_all ''DIV3'' subtitle)))
                 (find_all ''DIV2'' root))"

definition leaves_below :: "node \<Rightarrow> nat" where
  \<comment> \<open>sections and appendices found below one subpart node\<close>
  "leaves_below sub_part = length (find_all ''DIV8'' sub_part) + length (find_all ''DIV9'' sub_part)"

definition count_writes :: "outcome \<Rightarrow> nat" where
  \<comment> \<open>how many output files a run has written\<close>
  "count_writes r = length (json_writes (fst r))"

section \<open>Example documents\<close>

definition scenario_section :: node where
  "scenario_section = Tag ''DIV8'' [(''N'', ''1''), (''TYPE'', ''SECTION'')]
     [Tag ''HEAD'' [] [NavigableString ''Purpose''],
      Tag ''P'' [] [NavigableString ''This part explains X.''],
      Tag ''CITA'' [] [NavigableString ''[60 FR 1234]'']]"

definition scenario_title :: "string \<Rightarrow> string \<Rightarrow> string \<Rightarrow> string \<Rightarrow> string \<Rightarrow> node" where
  \<comment> \<open>one subtitle, chapter, subchapter, part and subpart, with the given codes, around
      the one section\<close>
  "scenario_title st ch sc p sp =
     Tag ''[document]'' []
       [Tag ''DIV1'' [(''N'', ''1''), (''TYPE'', ''TITLE'')]
          [Tag ''HEAD'' [] [NavigableString ''Title 29''],
           Tag ''DIV2'' [(''N'', st), (''TYPE'', ''SUBTITLE'')]
             [Tag ''HEAD'' [] [NavigableString ''Subtitle''],
              Tag ''DIV3'' [(''N'', ch), (''TYPE'', ''CHAPTER'')]
                [Tag ''HEAD'' [] [NavigableString ''Chapter''],
                 Tag ''DIV4'' [(''N'', sc), (''TYPE'', ''SUBCHAP'')]
                   [Tag ''HEAD'' [] [NavigableString ''Subchapter''],
                    Tag ''DIV5'' [(''N'', p), (''TYPE'', ''PART'')]
                      [Tag ''HEAD'' [] [NavigableString ''Part''],
                       Tag ''DIV6'' [(''N'', sp), (''TYPE'', ''SUBPART'')]
                         [Tag ''HEAD'' [] [NavigableString ''Subpart''],
                          scenario_section]]]]]]]"

definition scenario_document :: document where
  \<comment> \<open>what the walk of \<open>scenario_title ''A'' ''I'' ''B'' ''1910'' ''C''\<close> as title 29 writes\<close>
  "scenario_document =
     \<lparr>page_content =
        ''\<newline>    # Purpose\<newline>    \<newline>    This part explains X.\<newline>    \<newline>    **[60 FR 1234]**\<newline>    \<newline>\<newline>__https://www.ecfr.gov/current/title-29/subtitle-A/chapter-I/part-1910/subpart-C/section-1__'',
      metadata =
        [(''title_number'', JInt 29),
         (''title_description'', JStr ''Title 29''),
         (''chapter_number'', JStr ''I''),
         (''chapter_description'', JStr ''Chapter''),
         (''subchapter_number'', JStr ''B''),
         (''subchapter_description'', JStr ''Subchapter''),
         (''part_number'', JStr ''1910''),
         (''part_description'', JStr ''Part''),
         (''sub_part_number'', JStr ''C''),
         (''sub_part_description'', JStr ''Subpart''),
         (''section_number'', JStr ''1''),
         (''section_description'', JStr ''Purpose''),
         (''url'', JStr ''https://www.ecfr.gov/current/title-29/subtitle-A/chapter-I/part-1910/subpart-C/section-1'')]\<rparr>"

definition bare_leaf :: node where
  \<comment> \<open>a section with neither HEAD nor CITA\<close>
  "bare_leaf = Tag ''DIV8'' [(''N'', ''2'')] [Tag ''P'' [] [NavigableString ''Text.'']]"

definition three_paragraphs :: node where
  \<comment> \<open>the middle paragraph has no text\<close>
  "three_paragraphs = Tag ''DIV8'' [(''N'', ''3'')]
     [Tag ''P'' [] [NavigableString ''A''], Tag ''P'' [] [], Tag ''P'' [] [NavigableString ''B'']]"

definition markup_heading_leaf :: node where
  \<comment> \<open>a heading with nested markup: two children, so no single string\<close>
  "markup_heading_leaf = Tag ''DIV8'' [(''N'', ''4'')]
     [Tag ''HEAD'' [] [NavigableString ''Purpose '', Tag ''I'' [] [NavigableString ''and scope'']],
      Tag ''P'' [] [NavigableString ''Text.''],
      Tag ''CITA'' [] [NavigableString ''[60 FR 1234]'']]"

definition two_part_title :: node where
  \<comment> \<open>one subchapter; two parts, the first with one subpart holding one section\<close>
  "two_part_title =
     Tag ''[document]'' []
       [Tag ''DIV1'' [(''N'', ''1'')]
          [Tag ''DIV2'' [(''N'', ''A'')]
             [Tag ''DIV3'' [(''N'', ''I'')]
                [Tag ''DIV4'' [(''N'', ''B'')]
                   [Tag ''DIV5'' [(''N'', ''10'')]
                      [Tag ''DIV6'' [(''N'', ''C'')] [scenario_section]],
                    Tag ''DIV5'' [(''N'', ''11'')] []]]]]]"

definition slash_title :: node where
  \<comment> \<open>two subparts, one section each; one subpart code contains a slash\<close>
  "slash_title =
     Tag ''[document]'' []
       [Tag ''DIV1'' [(''N'', ''1'')]
          [Tag ''DIV2'' [(''N'', ''A'')]
             [Tag ''DIV3'' [(''N'', ''I'')]
                [Tag ''DIV4'' [(''N'', ''B'')]
                   [Tag ''DIV5'' [(''N'', ''10'')]
                      [Tag ''DIV6'' [(''N'', ''X'')]
                         [Tag ''DIV8'' [(''N'', ''Y/5'')] [Tag ''HEAD'' [] [NavigableString ''First'']]],
                       Tag ''DIV6'' [(''N'', ''X/Y'')]
                         [Tag ''DIV8'' [(''N'', ''5'')] [Tag ''HEAD'' [] [NavigableString ''Second'']]]]]]]]]"

definition failing_env :: env where
  \<comment> \<open>the title listing answers, every other request is answered 404; nothing is cached\<close>
  "failing_env =
     \<lparr>http = (\<lambda>url. if url = titles_url
                      then \<lparr>status_code = 200, response_text = [],
                            response_json = JSONObject (Some [\<lparr>number = 29, latest_issue_date = Some ''2023-05-01'',
                                                  latest_amended_on = Some ''2023-04-20''\<rparr>])\<rparr>
                      else \<lparr>status_code = 404, response_text = ''Not Found'', response_json = NotJSON\<rparr>),
      files = Map.empty\<rparr>"

section \<open>The node renderer\<close>

lemma process_cfr_xml_element_frame:
  "process_cfr_xml_element e =
     ''\<newline>    # '' @ py_str (render_title e) @ ''\<newline>    \<newline>    '' @ render_text e
     @ ''\<newline>    \<newline>    **'' @ py_str (render_citation e) @ ''**\<newline>    ''"
  by (simp add: process_cfr_xml_element_def)

text \<open>
  C5, as the claim states it, fails: the string returned for the section of the
  end-to-end scenario, which has heading \<open>Purpose\<close> and citation \<open>[60 FR 1234]\<close>,
  neither starts with \<open># Purpose\<close> nor ends with \<open>**[60 FR 1234]**\<close>, because the
  template opens with a newline and four spaces and closes with a newline and four spaces.
\<close>

theorem render_bare_frame_counterexample:
  "find_tag ''HEAD'' scenario_section = Some (Tag ''HEAD'' [] [NavigableString ''Purpose''])
   \<and> find_tag ''CITA'' scenario_section = Some (Tag ''CITA'' [] [NavigableString ''[60 FR 1234]''])
   \<and> \<not> prefix ''# Purpose'' (process_cfr_xml_element scenario_section)
   \<and> \<not> suffix ''**[60 FR 1234]**'' (process_cfr_xml_element scenario_section)"
  by code_simp

text \<open>
  C5 (amended): for every leaf node with a heading \<open>h\<close> and a citation \<open>c\<close> present, the
  string returned by the renderer starts with a newline, four spaces and
  \<open># <heading>\<close>, and ends with \<open>**<citation>**\<close>, a newline and four spaces, where the
  heading and the citation are the \<open>.string\<close> of the first HEAD and CITA below the node
  as an f-string prints them.
\<close>

theorem render_heading_citation_frame:
  assumes "find_tag ''HEAD'' e = Some h" and "find_tag ''CITA'' e = Some c"
  shows "prefix (''\<newline>    # '' @ py_str (get_string h)) (process_cfr_xml_element e)
         \<and> suffix (''**'' @ py_str (get_string c) @ ''**\<newline>    '') (process_cfr_xml_element e)"
  using assms
  unfolding process_cfr_xml_element_def render_title_def render_citation_def
  by (simp add: suffix_def)

theorem render_heading_citation_frame_witness:
  "find_tag ''HEAD'' scenario_section = Some (Tag ''HEAD'' [] [NavigableString ''Purpose''])
   \<and> find_tag ''CITA'' scenario_section = Some (Tag ''CITA'' [] [NavigableString ''[60 FR 1234]''])
   \<and> prefix ''\<newline>    # Purpose'' (process_cfr_xml_element scenario_section)
   \<and> suffix ''**[60 FR 1234]**\<newline>    '' (process_cfr_xml_element scenario_section)"
proof -
  have h: "find_tag ''HEAD'' scenario_section = Some (Tag ''HEAD'' [] [NavigableString ''Purpose''])"
    by code_simp
  have c: "find_tag ''CITA'' scenario_section = Some (Tag ''CITA'' [] [NavigableString ''[60 FR 1234]''])"
    by code_simp
  show ?thesis
    using render_heading_citation_frame [OF h c] h c by (simp add: py_str_def)
qed

text \<open>
  C6: for every leaf node without a heading element the rendered title is exactly
  \<open>NO TITLE\<close>, and for every leaf node without a citation element the rendered citation is
  exactly \<open>NO CITE\<close>; in both cases the renderer returns its string, with the
  placeholder in the place of the missing text.
\<close>

theorem missing_head_cita_placeholders:
  "(find_tag ''HEAD'' e = None \<longrightarrow>
      py_str (render_title e) = ''NO TITLE''
      \<and> process_cfr_xml_element e =
          ''\<newline>    # NO TITLE\<newline>    \<newline>    '' @ render_text e
          @ ''\<newline>    \<newline>    **'' @ py_str (render_citation e) @ ''**\<newline>    '')
   \<and> (find_tag ''CITA'' e = None \<longrightarrow>
      py_str (render_citation e) = ''NO CITE''
      \<and> process_cfr_xml_element e =
          ''\<newline>    # '' @ py_str (render_title e) @ ''\<newline>    \<newline>    '' @ render_text e
          @ ''\<newline>    \<newline>    **NO CITE**\<newline>    '')"
  by (simp add: process_cfr_xml_element_def render_title_def render_citation_def py_str_def)

theorem missing_head_cita_placeholders_witness:
  "find_tag ''HEAD'' bare_leaf = None \<and> find_tag ''CITA'' bare_leaf = None
   \<and> py_str (render_title bare_leaf) = ''NO TITLE''
   \<and> py_str (render_citation bare_leaf) = ''NO CITE''
   \<and> process_cfr_xml_element bare_leaf =
        ''\<newline>    # NO TITLE\<newline>    \<newline>    Text.\<newline>    \<newline>    **NO CITE**\<newline>    ''"
proof -
  have h: "find_tag ''HEAD'' bare_leaf = None" by code_simp
  have c: "find_tag ''CITA'' bare_leaf = None" by code_simp
  have t: "render_text bare_leaf = ''Text.''" by code_simp
  show ?thesis
    using missing_head_cita_placeholders [of bare_leaf] h c t by simp
qed

text \<open>
  C7: for a leaf node with three paragraphs whose text contents are \<open>A\<close>, absent and \<open>B\<close>
  in that order, the rendered body text is exactly \<open>A\<close>, three newlines, \<open>B\<close>: the
  paragraph without text contributes a newline of its own between the two separators.
\<close>

theorem three_paragraphs_body:
  assumes "find_all ''P'' e = [p1, p2, p3]"
    and "get_string p1 = Some ''A''" and "get_string p2 = None" and "get_string p3 = Some ''B''"
  shows "render_text e = ''A\<newline>\<newline>\<newline>B''
         \<and> process_cfr_xml_element e =
             ''\<newline>    # '' @ py_str (render_title e)
             @ ''\<newline>    \<newline>    A\<newline>\<newline>\<newline>B\<newline>    \<newline>    **''
             @ py_str (render_citation e) @ ''**\<newline>    ''"
  using assms by (simp add: process_cfr_xml_element_def render_text_def paragraph_text_def)

theorem three_paragraphs_body_witness:
  "find_all ''P'' three_paragraphs
     = [Tag ''P'' [] [NavigableString ''A''], Tag ''P'' [] [], Tag ''P'' [] [NavigableString ''B'']]
   \<and> get_string (Tag ''P'' [] []) = None
   \<and> render_text three_paragraphs = ''A\<newline>\<newline>\<newline>B''
   \<and> process_cfr_xml_element three_paragraphs =
        ''\<newline>    # NO TITLE\<newline>    \<newline>    A\<newline>\<newline>\<newline>B\<newline>    \<newline>    **NO CITE**\<newline>    ''"
proof -
  have ps: "find_all ''P'' three_paragraphs
     = [Tag ''P'' [] [NavigableString ''A''], Tag ''P'' [] [], Tag ''P'' [] [NavigableString ''B'']]"
    by code_simp
  have t: "py_str (render_title three_paragraphs) = ''NO TITLE''" by code_simp
  have c: "py_str (render_citation three_paragraphs) = ''NO CITE''" by code_simp
  show ?thesis
    using three_paragraphs_body [OF ps] ps t c by simp
qed

text \<open>
  C10: for every leaf node whose heading element is present but has no single string
  (its \<open>.string\<close> is None, as for a heading with nested markup next to text), the
  renderer's title is the text \<open>None\<close>: the heading line of the returned string is the
  template's indentation followed by \<open># None\<close>, not the placeholder \<open>NO TITLE\<close>.
\<close>

theorem heading_without_string_renders_None:
  assumes "find_tag ''HEAD'' e = Some h" and "get_string h = None"
  shows "py_str (render_title e) = ''None''
         \<and> py_str (render_title e) \<noteq> ''NO TITLE''
         \<and> process_cfr_xml_element e =
             ''\<newline>    # None\<newline>    \<newline>    '' @ render_text e
             @ ''\<newline>    \<newline>    **'' @ py_str (render_citation e) @ ''**\<newline>    ''"
  using assms by (simp add: process_cfr_xml_element_def render_title_def py_str_def)

theorem heading_without_string_renders_None_witness:
  "find_tag ''HEAD'' markup_heading_leaf
     = Some (Tag ''HEAD'' [] [NavigableString ''Purpose '', Tag ''I'' [] [NavigableString ''and scope'']])
   \<and> get_string (Tag ''HEAD'' [] [NavigableString ''Purpose '', Tag ''I'' [] [NavigableString ''and scope'']]) = None
   \<and> process_cfr_xml_element markup_heading_leaf =
        ''\<newline>    # None\<newline>    \<newline>    Text.\<newline>    \<newline>    **[60 FR 1234]**\<newline>    ''"
proof -
  have h: "find_tag ''HEAD'' markup_heading_leaf
     = Some (Tag ''HEAD'' [] [NavigableString ''Purpose '', Tag ''I'' [] [NavigableString ''and scope'']])"
    by code_simp
  have s: "get_string (Tag ''HEAD'' [] [NavigableString ''Purpose '', Tag ''I'' [] [NavigableString ''and scope'']]) = None"
    by simp
  have t: "render_text markup_heading_leaf = ''Text.''" by code_simp
  have c: "py_str (render_citation markup_heading_leaf) = ''[60 FR 1234]''" by code_simp
  show ?thesis
    using heading_without_string_renders_None [OF h s] h s t c by simp
qed

section \<open>The deep-link builders and percent-encoding\<close>

lemma hex_digit_inj:
  assumes "a < 16" and "b < 16" and "hex_digit a = hex_digit b"
  shows "a = b"
proof -
  have d: "distinct ''0123456789ABCDEF''" by simp
  have l: "length ''0123456789ABCDEF'' = 16" by simp
  from assms show ?thesis
    unfolding hex_digit_def using nth_eq_iff_index_eq [OF d, of a b] l by simp
qed

lemma percent_not_safe: "CHR ''%'' \<notin> always_safe" "CHR ''%'' \<noteq> CHR ''/''"
  by (simp_all add: always_safe_def)

lemma of_char_nibbles:
  assumes "(of_char c :: nat) div 16 = of_char d div 16"
    and "(of_char c :: nat) mod 16 = of_char d mod 16"
  shows "c = d"
proof -
  have "(of_char c :: nat) = of_char d"
    using assms by (metis div_mult_mod_eq)
  then show ?thesis by simp
qed

lemma of_char_div16: "(of_char c :: nat) div 16 < 16"
proof -
  have "(of_char c :: nat) < 256" by (rule nat_of_char_less_256)
  then show ?thesis by (simp add: less_mult_imp_div_less)
qed

lemma quote_byte_inj:
  assumes "quote_byte c @ r = quote_byte d @ r'"
  shows "c = d \<and> r = r'"
proof (cases "c \<in> always_safe \<or> c = CHR ''/''")
  case True
  note c = True
  show ?thesis
  proof (cases "d \<in> always_safe \<or> d = CHR ''/''")
    case True
    with c assms show ?thesis by (simp add: quote_byte_def)
  next
    case False
    with c assms have "c = CHR ''%''" by (simp add: quote_byte_def)
    with c percent_not_safe show ?thesis by simp
  qed
next
  case False
  note c = False
  show ?thesis
  proof (cases "d \<in> always_safe \<or> d = CHR ''/''")
    case True
    with c assms have "d = CHR ''%''" by (simp add: quote_byte_def)
    with True percent_not_safe show ?thesis by simp
  next
    case False
    with c assms have h: "hex_digit (of_char c div 16) = hex_digit (of_char d div 16)"
        "hex_digit (of_char c mod 16) = hex_digit (of_char d mod 16)" "r = r'"
      by (simp_all add: quote_byte_def)
    have "(of_char c :: nat) div 16 = of_char d div 16"
      using hex_digit_inj [OF of_char_div16 of_char_div16 h(1)] .
    moreover have "(of_char c :: nat) mod 16 = of_char d mod 16"
      using hex_digit_inj [OF _ _ h(2)] by simp
    ultimately have "c = d" by (rule of_char_nibbles)
    with h(3) show ?thesis by simp
  qed
qed

lemma quote_byte_not_Nil: "quote_byte c \<noteq> []"
  by (simp add: quote_byte_def)

lemma quote_inj: "quote xs = quote ys \<Longrightarrow> xs = ys"
proof (induction xs arbitrary: ys)
  case Nil
  show ?case
  proof (cases ys)
    case Nil
    then show ?thesis by simp
  next
    case (Cons y ys')
    with Nil.prems have "quote_byte y = []" by (simp add: quote_def)
    with quote_byte_not_Nil show ?thesis by simp
  qed
next
  case (Cons x xs)
  show ?case
  proof (cases ys)
    case Nil
    with Cons.prems have "quote_byte x = []" by (simp add: quote_def)
    with quote_byte_not_Nil show ?thesis by simp
  next
    case (Cons y ys')
    with Cons.prems have "quote_byte x @ quote xs = quote_byte y @ quote ys'"
      by (simp add: quote_def)
    then have "x = y \<and> quote xs = quote ys'" by (rule quote_byte_inj)
    with Cons.IH Cons show ?thesis by simp
  qed
qed

lemma quote_append: "quote (xs @ ys) = quote xs @ quote ys"
  by (simp add: quote_def)

lemma quote_space: "quote (CHR '' '' # ys) = ''%20'' @ quote ys"
  by (simp add: quote_def quote_byte_def always_safe_def hex_digit_def)

lemma quote_slash: "quote (CHR ''/'' # ys) = ''/'' @ quote ys"
  by (simp add: quote_def quote_byte_def)

text \<open>
  C8, as the claim states it, fails for the slash: \<open>quote\<close> is called with its default
  \<open>safe='/'\<close>, so the leaf code \<open>7/a\<close> goes into the URL as it is, and the URL has no
  percent sign at all.
\<close>

theorem slash_not_encoded_counterexample:
  "quote ''7/a'' = ''7/a''
   \<and> get_ecfr_link_to_section 29 ''A'' ''I'' ''1910'' ''B'' ''7/a''
       = ''https://www.ecfr.gov/current/title-29/subtitle-A/chapter-I/part-1910/subpart-B/section-7/a''
   \<and> get_ecfr_link_to_appendix 29 ''A'' ''I'' ''1910'' ''B'' ''7/a''
       = ''https://www.ecfr.gov/current/title-29/subtitle-A/chapter-I/part-1910/subpart-B/appendix-7/a''
   \<and> CHR ''%'' \<notin> set (get_ecfr_link_to_section 29 ''A'' ''I'' ''1910'' ''B'' ''7/a'')"
  by code_simp

text \<open>
  C8 (amended): the two deep-link builders are functions of their six arguments that,
  for one ancestor chain, give different URLs for different leaf codes; the URL is the
  fixed template with the title number and the four ancestor codes inserted as they are
  and the leaf code passed through \<open>quote\<close>; \<open>quote\<close> replaces a space in the leaf code by
  \<open>%20\<close> (so the code \<open>7 a\<close> yields a URL ending in \<open>7%20a\<close>) and leaves a slash as it is.
\<close>

theorem deep_links_injective_in_leaf_code:
  "(get_ecfr_link_to_section t st ch p sp s1 = get_ecfr_link_to_section t st ch p sp s2 \<longleftrightarrow> s1 = s2)
   \<and> (get_ecfr_link_to_appendix t st ch p sp s1 = get_ecfr_link_to_appendix t st ch p sp s2 \<longleftrightarrow> s1 = s2)
   \<and> get_ecfr_link_to_section t st ch p sp s1 =
        ''https://www.ecfr.gov/current/title-'' @ str_int t @ ''/subtitle-'' @ st @ ''/chapter-'' @ ch
        @ ''/part-'' @ p @ ''/subpart-'' @ sp @ ''/section-'' @ quote s1
   \<and> get_ecfr_link_to_appendix t st ch p sp s1 =
        ''https://www.ecfr.gov/current/title-'' @ str_int t @ ''/subtitle-'' @ st @ ''/chapter-'' @ ch
        @ ''/part-'' @ p @ ''/subpart-'' @ sp @ ''/appendix-'' @ quote s1
   \<and> quote (xs @ '' '' @ ys) = quote xs @ ''%20'' @ quote ys
   \<and> quote (xs @ ''/'' @ ys) = quote xs @ ''/'' @ quote ys
   \<and> quote ''7 a'' = ''7%20a''"
proof -
  have inj: "quote s1 = quote s2 \<longleftrightarrow> s1 = s2"
    using quote_inj [of s1 s2] by auto
  have e: "quote ''7 a'' = ''7%20a''" by code_simp
  show ?thesis
    using inj e
    by (simp add: get_ecfr_link_to_section_def get_ecfr_link_to_appendix_def
        quote_append quote_space quote_slash)
qed

theorem deep_links_injective_in_leaf_code_witness:
  "get_ecfr_link_to_section 29 ''A'' ''I'' ''1910'' ''B'' ''7 a''
     \<noteq> get_ecfr_link_to_section 29 ''A'' ''I'' ''1910'' ''B'' ''7a''
   \<and> get_ecfr_link_to_section 29 ''A'' ''I'' ''1910'' ''B'' ''7 a''
       = ''https://www.ecfr.gov/current/title-29/subtitle-A/chapter-I/part-1910/subpart-B/section-7%20a''
   \<and> get_ecfr_link_to_appendix 29 ''A'' ''I'' ''1910'' ''B'' ''7 a''
       = ''https://www.ecfr.gov/current/title-29/subtitle-A/chapter-I/part-1910/subpart-B/appendix-7%20a''"
proof -
  have "(get_ecfr_link_to_section 29 ''A'' ''I'' ''1910'' ''B'' ''7 a''
          = get_ecfr_link_to_section 29 ''A'' ''I'' ''1910'' ''B'' ''7a'') \<longleftrightarrow> ''7 a'' = ''7a''"
    using deep_links_injective_in_leaf_code
      [of 29 "''A''" "''I''" "''1910''" "''B''" "''7 a''" "''7a''" "[]" "[]"]
    by (rule conjunct1)
  then have ne: "get_ecfr_link_to_section 29 ''A'' ''I'' ''1910'' ''B'' ''7 a''
     \<noteq> get_ecfr_link_to_section 29 ''A'' ''I'' ''1910'' ''B'' ''7a''"
    by simp
  have s: "get_ecfr_link_to_section 29 ''A'' ''I'' ''1910'' ''B'' ''7 a''
       = ''https://www.ecfr.gov/current/title-29/subtitle-A/chapter-I/part-1910/subpart-B/section-7%20a''"
    by code_simp
  have a: "get_ecfr_link_to_appendix 29 ''A'' ''I'' ''1910'' ''B'' ''7 a''
       = ''https://www.ecfr.gov/current/title-29/subtitle-A/chapter-I/part-1910/subpart-B/appendix-7%20a''"
    by code_simp
  from ne s a show ?thesis by blast
qed

section \<open>The end-to-end scenario\<close>

lemma walk_scenario_title:
  "walk (scenario_title st ch sc p sp) t =
     ([Print ''Title description: Title 29'',
       Print (''Subtitle '' @ st @ '' - Subtitle''),
       Print (''Subchapter '' @ ch @ '' - Chapter''),
       Print (''Subchapter '' @ sc @ '' - Subchapter''),
       Print (''Part '' @ p @ '' - Part''),
       Print (''Sub part '' @ sp @ '': Subpart''),
       MakeParent (section_file t st ch sc p sp ''1''),
       WriteJson (section_file t st ch sc p sp ''1'')
         \<lparr>page_content =
            ''\<newline>    # Purpose\<newline>    \<newline>    This part explains X.\<newline>    \<newline>    **[60 FR 1234]**\<newline>    \<newline>\<newline>__''
            @ get_ecfr_link_to_section t st ch p sp ''1'' @ ''__'',
          metadata =
            [(''title_number'', JInt t),
             (''title_description'', JStr ''Title 29''),
             (''chapter_number'', JStr ch),
             (''chapter_description'', JStr ''Chapter''),
             (''subchapter_number'', JStr sc),
             (''subchapter_description'', JStr ''Subchapter''),
             (''part_number'', JStr p),
             (''part_description'', JStr ''Part''),
             (''sub_part_number'', JStr sp),
             (''sub_part_description'', JStr ''Subpart''),
             (''section_number'', JStr ''1''),
             (''section_description'', JStr ''Purpose''),
             (''url'', JStr (get_ecfr_link_to_section t st ch p sp ''1''))]\<rparr>],
      None)"
  by (simp add: walk_def scenario_title_def scenario_section_def find_tag_def find_all_def
      description_def emit_def and_then_def subscript_def walk_subtitle_def walk_chapter_def
      walk_subchapter_def walk_part_def walk_sub_part_def walk_section_def walk_appendix_def
      py_str_def json_of_def process_cfr_xml_element_def render_title_def render_text_def
      render_citation_def paragraph_text_def Let_def)

text \<open>
  C2: for the title document with exactly one subtitle, chapter, subchapter, part and
  subpart (of any codes) and the one section with heading \<open>Purpose\<close>, one paragraph
  \<open>This part explains X.\<close>, citation \<open>[60 FR 1234]\<close> and code \<open>1\<close>, the walker ends without
  an exception and writes exactly one output file; its \<open>page_content\<close> is the rendered
  section followed by two newlines and the section deep link between double
  underscores, and its \<open>metadata.section_number\<close> is \<open>1\<close>.
\<close>

theorem end_to_end_scenario:
  "snd (walk (scenario_title st ch sc p sp) t) = None
   \<and> map fst (json_writes (fst (walk (scenario_title st ch sc p sp) t)))
       = [section_file t st ch sc p sp ''1'']
   \<and> map (page_content \<circ> snd) (json_writes (fst (walk (scenario_title st ch sc p sp) t)))
       = [''\<newline>    # Purpose\<newline>    \<newline>    This part explains X.\<newline>    \<newline>    **[60 FR 1234]**\<newline>    \<newline>\<newline>__''
          @ get_ecfr_link_to_section t st ch p sp ''1'' @ ''__'']
   \<and> map (\<lambda>fd. map_of (metadata (snd fd)) ''section_number'')
         (json_writes (fst (walk (scenario_title st ch sc p sp) t)))
       = [Some (JStr ''1'')]"
  by (simp add: walk_scenario_title)

section \<open>A failed download\<close>

text \<open>
  C9: when the request for the full-title XML is answered with a status other than 200,
  \<open>get_cfr_title_xml\<close> prints the failure and returns None to its caller: it raises
  nothing, and it has made one request for the XML and no other after the title listing.
\<close>

theorem failed_fetch_returns_None:
  assumes "snd (get_title_date w title LATEST_ISSUE_DATE) = Inr date"
    and "status_code (http w (title_xml_url date title)) \<noteq> 200"
  shows "get_cfr_title_xml w title =
           ([HttpGet titles_url,
             Print (''Request file from '' @ title_xml_url date title),
             HttpGet (title_xml_url date title),
             Print (''Request failed with status code: ''
                    @ str_int (status_code (http w (title_xml_url date title))))],
            Inr None)"
proof -
  from assms(1) have d: "get_title_date w title LATEST_ISSUE_DATE = ([HttpGet titles_url], Inr date)"
    by (auto simp: get_title_date_def Let_def split: if_splits option.splits json_body.splits)
  show ?thesis
    using assms(2) by (simp add: get_cfr_title_xml_def d Let_def)
qed

lemma failing_env_date:
  "snd (get_title_date failing_env 29 LATEST_ISSUE_DATE) = Inr (Some ''2023-05-01'')"
  by (simp add: get_title_date_def failing_env_def Let_def)

lemma failing_env_url:
  "title_xml_url (Some ''2023-05-01'') 29
     = ''https://www.ecfr.gov/api/versioner/v1/full/2023-05-01/title-29.xml''"
  by code_simp

lemma failing_env_status:
  "status_code (http failing_env (title_xml_url (Some ''2023-05-01'') 29)) = 404"
  by (simp add: failing_env_url) (simp add: failing_env_def titles_url_def)

theorem failed_fetch_returns_None_witness:
  "snd (get_title_date failing_env 29 LATEST_ISSUE_DATE) = Inr (Some ''2023-05-01'')
   \<and> status_code (http failing_env (title_xml_url (Some ''2023-05-01'') 29)) \<noteq> 200
   \<and> get_cfr_title_xml failing_env 29 =
       ([HttpGet titles_url,
         Print ''Request file from https://www.ecfr.gov/api/versioner/v1/full/2023-05-01/title-29.xml'',
         HttpGet ''https://www.ecfr.gov/api/versioner/v1/full/2023-05-01/title-29.xml'',
         Print ''Request failed with status code: 404''],
        Inr None)"
proof -
  have s: "status_code (http failing_env (title_xml_url (Some ''2023-05-01'') 29)) \<noteq> 200"
    by (simp add: failing_env_status)
  have n: "str_int 404 = ''404''" by code_simp
  note r = failed_fetch_returns_None [OF failing_env_date s, unfolded failing_env_status n]
  from r [unfolded failing_env_url] have
    "get_cfr_title_xml failing_env 29 =
       ([HttpGet titles_url,
         Print ''Request file from https://www.ecfr.gov/api/versioner/v1/full/2023-05-01/title-29.xml'',
         HttpGet ''https://www.ecfr.gov/api/versioner/v1/full/2023-05-01/title-29.xml'',
         Print ''Request failed with status code: 404''],
        Inr None)"
    by simp
  with failing_env_date s show ?thesis by blast
qed

text \<open>
  What the caller does with that None: on a cache miss \<open>fetch_and_parse_cfr_xml\<close> hands
  it to \<open>write_text\<close>, which raises TypeError; nothing is written and the walk does not
  start.
\<close>

lemma fetch_and_parse_after_failed_fetch:
  assumes "files w (cache_file title) = None"
    and "snd (get_title_date w title LATEST_ISSUE_DATE) = Inr date"
    and "status_code (http w (title_xml_url date title)) \<noteq> 200"
  shows "fetch_and_parse_cfr_xml parse_xml w title =
           ([Print ''File not in cache. Retrieve.'', MakeParent (cache_file title),
             HttpGet titles_url,
             Print (''Request file from '' @ title_xml_url date title),
             HttpGet (title_xml_url date title),
             Print (''Request failed with status code: ''
                    @ str_int (status_code (http w (title_xml_url date title))))],
            Some (TypeError ''data must be str, not NoneType''))"
proof -
  from assms(2) have d: "get_title_date w title LATEST_ISSUE_DATE = ([HttpGet titles_url], Inr date)"
    by (auto simp: get_title_date_def Let_def split: if_splits option.splits json_body.splits)
  have g: "get_cfr_title_xml w title =
           ([HttpGet titles_url,
             Print (''Request file from '' @ title_xml_url date title),
             HttpGet (title_xml_url date title),
             Print (''Request failed with status code: ''
                    @ str_int (status_code (http w (title_xml_url date title))))],
            Inr None)"
    using assms(3) by (simp add: get_cfr_title_xml_def d Let_def)
  show ?thesis
    by (simp add: fetch_and_parse_cfr_xml_def Let_def assms(1) g)
qed

section \<open>Loops and traces\<close>

lemma fst_emit: "fst (emit evs r) = evs @ fst r"
  by (cases r) (simp add: emit_def)

lemma snd_emit: "snd (emit evs r) = snd r"
  by (cases r) (simp add: emit_def)

lemma snd_and_then: "snd (and_then a b) = None \<longleftrightarrow> snd a = None \<and> snd b = None"
  by (cases a; cases b) (auto simp: and_then_def emit_def split: option.splits)

lemma fst_and_then: "snd a = None \<Longrightarrow> fst (and_then a b) = fst a @ fst b"
  by (cases a; cases b) (auto simp: and_then_def emit_def split: option.splits)

lemma set_fst_and_then: "set (fst (and_then a b)) \<subseteq> set (fst a) \<union> set (fst b)"
  by (cases a; cases b) (auto simp: and_then_def emit_def split: option.splits)

lemma snd_for_each: "snd (for_each xs body) = None \<longleftrightarrow> (\<forall>x\<in>set xs. snd (body x) = None)"
  by (induction xs) (auto simp: snd_and_then)

lemma fst_for_each:
  "snd (for_each xs body) = None \<Longrightarrow> fst (for_each xs body) = concat (map (\<lambda>x. fst (body x)) xs)"
  by (induction xs) (auto simp: snd_and_then fst_and_then)

lemma in_for_each:
  "ev \<in> set (fst (for_each xs body)) \<Longrightarrow> \<exists>x\<in>set xs. ev \<in> set (fst (body x))"
proof (induction xs)
  case Nil
  then show ?case by simp
next
  case (Cons x xs)
  from Cons.prems set_fst_and_then [of "body x" "for_each xs body"]
  have "ev \<in> set (fst (body x)) \<or> ev \<in> set (fst (for_each xs body))" by auto
  with Cons.IH show ?case by auto
qed

lemma in_subscript:
  "ev \<in> set (fst (subscript e k rest)) \<Longrightarrow> \<exists>v. get_attr k e = Some v \<and> ev \<in> set (fst (rest v))"
  by (auto simp: subscript_def split: option.splits)

lemma snd_subscript:
  "snd (subscript e k rest) = None \<Longrightarrow> \<exists>v. get_attr k e = Some v \<and> subscript e k rest = rest v"
  by (auto simp: subscript_def split: option.splits)

lemma json_writes_append: "json_writes (a @ b) = json_writes a @ json_writes b"
  by (induction a rule: json_writes.induct) auto

lemma in_json_writes: "(f, d) \<in> set (json_writes evs) \<longleftrightarrow> WriteJson f d \<in> set evs"
  by (induction evs rule: json_writes.induct) auto

lemma count_emit_print: "count_writes (emit [Print s] r) = count_writes r"
  by (simp add: count_writes_def fst_emit)

lemma count_and_then: "snd a = None \<Longrightarrow> count_writes (and_then a b) = count_writes a + count_writes b"
  by (simp add: count_writes_def fst_and_then json_writes_append)

lemma count_for_each:
  "snd (for_each xs body) = None \<Longrightarrow>
   count_writes (for_each xs body) = sum_list (map (\<lambda>x. count_writes (body x)) xs)"
proof (induction xs)
  case Nil
  then show ?case by (simp add: count_writes_def)
next
  case (Cons x xs)
  then show ?case by (simp add: snd_and_then count_and_then)
qed

lemma count_for_each_const:
  assumes "snd (for_each xs body) = None"
    and "\<And>x. x \<in> set xs \<Longrightarrow> snd (body x) = None \<Longrightarrow> count_writes (body x) = k"
  shows "count_writes (for_each xs body) = length xs * k"
proof -
  from assms(1) have ok: "\<forall>x\<in>set xs. snd (body x) = None" by (simp add: snd_for_each)
  with assms(2) have "map (\<lambda>x. count_writes (body x)) xs = map (\<lambda>x. k) xs" by simp
  then have "sum_list (map (\<lambda>x. count_writes (body x)) xs) = sum_list (map (\<lambda>x. k) xs)"
    by (rule arg_cong)
  also have "\<dots> = length xs * k" by (simp add: sum_list_triv)
  finally show ?thesis using count_for_each [OF assms(1)] by simp
qed

lemma count_walk_section:
  assumes "snd (walk_section tn td stn chn chd scn scd pn pd spn spd s) = None"
  shows "count_writes (walk_section tn td stn chn chd scn scd pn pd spn spd s) = 1"
  using assms unfolding walk_section_def
  by (auto simp: subscript_def count_writes_def Let_def split: option.splits)

lemma count_walk_appendix:
  assumes "snd (walk_appendix tn td stn chn chd scn scd pn pd spn spd s) = None"
  shows "count_writes (walk_appendix tn td stn chn chd scn scd pn pd spn spd s) = 1"
  using assms unfolding walk_appendix_def
  by (auto simp: subscript_def count_writes_def Let_def split: option.splits)

lemma count_walk_sub_part:
  assumes "snd (walk_sub_part tn td stn chn chd scn scd pn pd sp) = None"
  shows "count_writes (walk_sub_part tn td stn chn chd scn scd pn pd sp) = leaves_below sp"
proof -
  from snd_subscript [OF assms [unfolded walk_sub_part_def]]
  obtain spn where w: "walk_sub_part tn td stn chn chd scn scd pn pd sp =
       emit [Print (''Sub part '' @ spn @ '': '' @ py_str (description sp))]
         (and_then
            (for_each (find_all ''DIV8'' sp) (walk_section tn td stn chn chd scn scd pn pd spn (description sp)))
            (for_each (find_all ''DIV9'' sp) (walk_appendix tn td stn chn chd scn scd pn pd spn (description sp))))"
    unfolding walk_sub_part_def by (auto simp: Let_def)
  from assms w have ok: "snd (for_each (find_all ''DIV8'' sp) (walk_section tn td stn chn chd scn scd pn pd spn (description sp))) = None"
     "snd (for_each (find_all ''DIV9'' sp) (walk_appendix tn td stn chn chd scn scd pn pd spn (description sp))) = None"
    by (simp_all add: snd_emit snd_and_then)
  have a: "count_writes (for_each (find_all ''DIV8'' sp) (walk_section tn td stn chn chd scn scd pn pd spn (description sp))) = length (find_all ''DIV8'' sp) * 1"
    using ok(1) by (rule count_for_each_const) (rule count_walk_section)
  have b: "count_writes (for_each (find_all ''DIV9'' sp) (walk_appendix tn td stn chn chd scn scd pn pd spn (description sp))) = length (find_all ''DIV9'' sp) * 1"
    using ok(2) by (rule count_for_each_const) (rule count_walk_appendix)
  show ?thesis
    by (simp add: w count_emit_print count_and_then [OF ok(1)] a b leaves_below_def)
qed

lemma count_walk_part:
  assumes "snd (walk_part root tn td stn chn chd scn scd part) = None"
  shows "count_writes (walk_part root tn td stn chn chd scn scd part)
         = sum_list (map leaves_below (find_all ''DIV6'' root))"
proof -
  from snd_subscript [OF assms [unfolded walk_part_def]]
  obtain pn where w: "walk_part root tn td stn chn chd scn scd part =
       emit [Print (''Part '' @ pn @ '' - '' @ py_str (description part))]
         (for_each (find_all ''DIV6'' root) (walk_sub_part tn td stn chn chd scn scd pn (description part)))"
    unfolding walk_part_def by (auto simp: Let_def)
  from assms w have ok: "snd (for_each (find_all ''DIV6'' root) (walk_sub_part tn td stn chn chd scn scd pn (description part))) = None"
    by (simp add: snd_emit)
  then have each: "\<forall>sp\<in>set (find_all ''DIV6'' root). snd (walk_sub_part tn td stn chn chd scn scd pn (description part) sp) = None"
    by (simp add: snd_for_each)
  have "map (\<lambda>sp. count_writes (walk_sub_part tn td stn chn chd scn scd pn (description part) sp)) (find_all ''DIV6'' root)
        = map leaves_below (find_all ''DIV6'' root)"
    using each by (simp add: count_walk_sub_part)
  with count_for_each [OF ok] show ?thesis
    by (simp add: w count_emit_print)
qed

lemma count_walk_subchapter:
  assumes "snd (walk_subchapter root tn td stn chn chd subchapter) = None"
  shows "count_writes (walk_subchapter root tn td stn chn chd subchapter)
         = length (find_all ''DIV5'' root) * sum_list (map leaves_below (find_all ''DIV6'' root))"
proof -
  from snd_subscript [OF assms [unfolded walk_subchapter_def]]
  obtain scn where w: "walk_subchapter root tn td stn chn chd subchapter =
       emit [Print (''Subchapter '' @ scn @ '' - '' @ py_str (description subchapter))]
         (for_each (find_all ''DIV5'' root) (walk_part root tn td stn chn chd scn (description subchapter)))"
    unfolding walk_subchapter_def by (auto simp: Let_def)
  from assms w have ok: "snd (for_each (find_all ''DIV5'' root) (walk_part root tn td stn chn chd scn (description subchapter))) = None"
    by (simp add: snd_emit)
  have "count_writes (for_each (find_all ''DIV5'' root) (walk_part root tn td stn chn chd scn (description subchapter)))
        = length (find_all ''DIV5'' root) * sum_list (map leaves_below (find_all ''DIV6'' root))"
    using ok by (rule count_for_each_const) (rule count_walk_part)
  then show ?thesis by (simp add: w count_emit_print)
qed

lemma count_walk_chapter:
  assumes "snd (walk_chapter root tn td stn chapter) = None"
  shows "count_writes (walk_chapter root tn td stn chapter)
         = length (find_all ''DIV4'' chapter)
           * (length (find_all ''DIV5'' root) * sum_list (map leaves_below (find_all ''DIV6'' root)))"
proof -
  from snd_subscript [OF assms [unfolded walk_chapter_def]]
  obtain chn where w: "walk_chapter root tn td stn chapter =
       emit [Print (''Subchapter '' @ chn @ '' - '' @ py_str (description chapter))]
         (for_each (find_all ''DIV4'' chapter) (walk_subchapter root tn td stn chn (description chapter)))"
    unfolding walk_chapter_def by (auto simp: Let_def)
  from assms w have ok: "snd (for_each (find_all ''DIV4'' chapter) (walk_subchapter root tn td stn chn (description chapter))) = None"
    by (simp add: snd_emit)
  have "count_writes (for_each (find_all ''DIV4'' chapter) (walk_subchapter root tn td stn chn (description chapter)))
        = length (find_all ''DIV4'' chapter)
           * (length (find_all ''DIV5'' root) * sum_list (map leaves_below (find_all ''DIV6'' root)))"
    using ok by (rule count_for_each_const) (rule count_walk_subchapter)
  then show ?thesis by (simp add: w count_emit_print)
qed

lemma count_walk_subtitle:
  assumes "snd (walk_subtitle root tn td subtitle) = None"
  shows "count_writes (walk_subtitle root tn td subtitle)
         = length (concat (map (find_all ''DIV4'') (find_all ''DIV3'' subtitle)))
           * (length (find_all ''DIV5'' root) * sum_list (map leaves_below (find_all ''DIV6'' root)))"
proof -
  let ?k = "length (find_all ''DIV5'' root) * sum_list (map leaves_below (find_all ''DIV6'' root))"
  from snd_subscript [OF assms [unfolded walk_subtitle_def]]
  obtain stn where w: "walk_subtitle root tn td subtitle =
       emit [Print (''Subtitle '' @ stn @ '' - '' @ py_str (description subtitle))]
         (for_each (find_all ''DIV3'' subtitle) (walk_chapter root tn td stn))"
    unfolding walk_subtitle_def by (auto simp: Let_def)
  from assms w have ok: "snd (for_each (find_all ''DIV3'' subtitle) (walk_chapter root tn td stn)) = None"
    by (simp add: snd_emit)
  then have each: "\<forall>c\<in>set (find_all ''DIV3'' subtitle). snd (walk_chapter root tn td stn c) = None"
    by (simp add: snd_for_each)
  have "map (\<lambda>c. count_writes (walk_chapter root tn td stn c)) (find_all ''DIV3'' subtitle)
        = map (\<lambda>c. length (find_all ''DIV4'' c) * ?k) (find_all ''DIV3'' subtitle)"
    using each by (simp add: count_walk_chapter)
  with count_for_each [OF ok]
  have "count_writes (for_each (find_all ''DIV3'' subtitle) (walk_chapter root tn td stn))
        = sum_list (map (\<lambda>c. length (find_all ''DIV4'' c) * ?k) (find_all ''DIV3'' subtitle))"
    by simp
  also have "\<dots> = sum_list (map (\<lambda>c. length (find_all ''DIV4'' c)) (find_all ''DIV3'' subtitle)) * ?k"
    by (simp add: sum_list_mult_const)
  finally show ?thesis
    by (simp add: w count_emit_print length_concat comp_def)
qed

lemma count_walk:
  assumes "snd (walk root tn) = None"
  shows "count_writes (walk root tn)
         = length (subchapter_iterations root)
           * (length (find_all ''DIV5'' root) * sum_list (map leaves_below (find_all ''DIV6'' root)))"
proof -
  let ?k = "length (find_all ''DIV5'' root) * sum_list (map leaves_below (find_all ''DIV6'' root))"
  from assms obtain title where w: "walk root tn =
       emit [Print (''Title description: '' @ py_str (description title))]
         (for_each (find_all ''DIV2'' root) (walk_subtitle root tn (description title)))"
    unfolding walk_def by (auto simp: Let_def split: option.splits)
  from assms w have ok: "snd (for_each (find_all ''DIV2'' root) (walk_subtitle root tn (description title))) = None"
    by (simp add: snd_emit)
  then have each: "\<forall>s\<in>set (find_all ''DIV2'' root). snd (walk_subtitle root tn (description title) s) = None"
    by (simp add: snd_for_each)
  have "map (\<lambda>s. count_writes (walk_subtitle root tn (description title) s)) (find_all ''DIV2'' root)
        = map (\<lambda>s. length (concat (map (find_all ''DIV4'') (find_all ''DIV3'' s))) * ?k) (find_all ''DIV2'' root)"
    using each by (simp add: count_walk_subtitle)
  with count_for_each [OF ok]
  have "count_writes (for_each (find_all ''DIV2'' root) (walk_subtitle root tn (description title)))
        = sum_list (map (\<lambda>s. length (concat (map (find_all ''DIV4'') (find_all ''DIV3'' s))) * ?k) (find_all ''DIV2'' root))"
    by simp
  also have "\<dots> = sum_list (map (\<lambda>s. length (concat (map (find_all ''DIV4'') (find_all ''DIV3'' s)))) (find_all ''DIV2'' root)) * ?k"
    by (simp add: sum_list_mult_const)
  finally show ?thesis
    by (simp add: w count_emit_print subchapter_iterations_def length_concat comp_def)
qed

lemma in_emit_print:
  "WriteJson f d \<in> set (fst (emit [Print s] r)) \<Longrightarrow> WriteJson f d \<in> set (fst r)"
  by (simp add: fst_emit)

lemma in_and_then:
  "ev \<in> set (fst (and_then a b)) \<Longrightarrow> ev \<in> set (fst a) \<or> ev \<in> set (fst b)"
  using set_fst_and_then [of a b] by auto

lemma walk_section_write:
  assumes "WriteJson f d \<in> set (fst (walk_section tn td stn chn chd scn scd pn pd spn spd s))"
  shows "\<exists>n. get_attr ''N'' s = Some n
     \<and> f = section_file tn stn chn scn pn spn n
     \<and> page_content d = process_cfr_xml_element s @ ''\<newline>\<newline>__''
          @ get_ecfr_link_to_section tn stn chn pn spn n @ ''__''
     \<and> metadata d =
         [(''title_number'', JInt tn),
          (''title_description'', json_of td),
          (''chapter_number'', JStr chn),
          (''chapter_description'', json_of chd),
          (''subchapter_number'', JStr scn),
          (''subchapter_description'', json_of scd),
          (''part_number'', JStr pn),
          (''part_description'', json_of pd),
          (''sub_part_number'', JStr spn),
          (''sub_part_description'', json_of spd),
          (''section_number'', JStr n),
          (''section_description'', json_of (description s)),
          (''url'', JStr (get_ecfr_link_to_section tn stn chn pn spn n))]"
  using assms unfolding walk_section_def
  by (auto simp: subscript_def Let_def split: option.splits)

lemma walk_appendix_write:
  assumes "WriteJson f d \<in> set (fst (walk_appendix tn td stn chn chd scn scd pn pd spn spd s))"
  shows "\<exists>n. get_attr ''N'' s = Some n
     \<and> f = appendix_file tn stn chn scn pn spn n
     \<and> page_content d = process_cfr_xml_element s @ ''\<newline>\<newline>__''
          @ get_ecfr_link_to_appendix tn stn chn pn spn n @ ''__''
     \<and> metadata d =
         [(''title_number'', JInt tn),
          (''title_description'', json_of td),
          (''chapter_number'', JStr chn),
          (''chapter_description'', json_of chd),
          (''subchapter_number'', JStr scn),
          (''subchapter_description'', json_of scd),
          (''part_number'', JStr pn),
          (''part_description'', json_of pd),
          (''sub_part_number'', JStr spn),
          (''sub_part_description'', json_of spd),
          (''appendix_number'', JStr n),
          (''appendix_description'', json_of (description s)),
          (''url'', JStr (get_ecfr_link_to_appendix tn stn chn pn spn n))]"
  using assms unfolding walk_appendix_def
  by (auto simp: subscript_def Let_def split: option.splits)

lemma walk_sub_part_write:
  assumes "WriteJson f d \<in> set (fst (walk_sub_part tn td stn chn chd scn scd pn pd sp))"
  shows "\<exists>spn. get_attr ''N'' sp = Some spn
     \<and> ((\<exists>s\<in>set (find_all ''DIV8'' sp).
            WriteJson f d \<in> set (fst (walk_section tn td stn chn chd scn scd pn pd spn (description sp) s)))
        \<or> (\<exists>a\<in>set (find_all ''DIV9'' sp).
            WriteJson f d \<in> set (fst (walk_appendix tn td stn chn chd scn scd pn pd spn (description sp) a))))"
proof -
  from in_subscript [OF assms [unfolded walk_sub_part_def]]
  obtain spn where n: "get_attr ''N'' sp = Some spn"
    and "WriteJson f d \<in> set (fst (emit [Print (''Sub part '' @ spn @ '': '' @ py_str (description sp))]
         (and_then
            (for_each (find_all ''DIV8'' sp) (walk_section tn td stn chn chd scn scd pn pd spn (description sp)))
            (for_each (find_all ''DIV9'' sp) (walk_appendix tn td stn chn chd scn scd pn pd spn (description sp))))))"
    by (auto simp: Let_def)
  then have "WriteJson f d \<in> set (fst (for_each (find_all ''DIV8'' sp) (walk_section tn td stn chn chd scn scd pn pd spn (description sp))))
      \<or> WriteJson f d \<in> set (fst (for_each (find_all ''DIV9'' sp) (walk_appendix tn td stn chn chd scn scd pn pd spn (description sp))))"
    by (auto dest!: in_emit_print in_and_then)
  with n show ?thesis by (auto dest!: in_for_each)
qed

lemma walk_part_write:
  assumes "WriteJson f d \<in> set (fst (walk_part root tn td stn chn chd scn scd part))"
  shows "\<exists>pn. get_attr ''N'' part = Some pn
     \<and> (\<exists>sp\<in>set (find_all ''DIV6'' root).
           WriteJson f d \<in> set (fst (walk_sub_part tn td stn chn chd scn scd pn (description part) sp)))"
proof -
  from in_subscript [OF assms [unfolded walk_part_def]]
  show ?thesis by (auto simp: Let_def dest!: in_emit_print in_for_each)
qed

lemma walk_subchapter_write:
  assumes "WriteJson f d \<in> set (fst (walk_subchapter root tn td stn chn chd subchapter))"
  shows "\<exists>scn. get_attr ''N'' subchapter = Some scn
     \<and> (\<exists>part\<in>set (find_all ''DIV5'' root).
           WriteJson f d \<in> set (fst (walk_part root tn td stn chn chd scn (description subchapter) part)))"
proof -
  from in_subscript [OF assms [unfolded walk_subchapter_def]]
  show ?thesis by (auto simp: Let_def dest!: in_emit_print in_for_each)
qed

lemma walk_chapter_write:
  assumes "WriteJson f d \<in> set (fst (walk_chapter root tn td stn chapter))"
  shows "\<exists>chn. get_attr ''N'' chapter = Some chn
     \<and> (\<exists>subchapter\<in>set (find_all ''DIV4'' chapter).
           WriteJson f d \<in> set (fst (walk_subchapter root tn td stn chn (description chapter) subchapter)))"
proof -
  from in_subscript [OF assms [unfolded walk_chapter_def]]
  show ?thesis by (auto simp: Let_def dest!: in_emit_print in_for_each)
qed

lemma walk_subtitle_write:
  assumes "WriteJson f d \<in> set (fst (walk_subtitle root tn td subtitle))"
  shows "\<exists>stn. get_attr ''N'' subtitle = Some stn
     \<and> (\<exists>chapter\<in>set (find_all ''DIV3'' subtitle).
           WriteJson f d \<in> set (fst (walk_chapter root tn td stn chapter)))"
proof -
  from in_subscript [OF assms [unfolded walk_subtitle_def]]
  show ?thesis by (auto simp: Let_def dest!: in_emit_print in_for_each)
qed

lemma walk_write:
  assumes "WriteJson f d \<in> set (fst (walk root tn))"
  shows "\<exists>title. find_tag ''DIV1'' root = Some title
     \<and> (\<exists>subtitle\<in>set (find_all ''DIV2'' root).
           WriteJson f d \<in> set (fst (walk_subtitle root tn (description title) subtitle)))"
  using assms unfolding walk_def
  by (auto simp: Let_def split: option.splits dest!: in_emit_print in_for_each)

section \<open>How often the walk writes\<close>

text \<open>
  C1, as the claim states it, fails in its conclusion: the subpart loop re-scans the
  whole document inside the part loop, so a subpart, and each leaf below it, is
  processed once for every part of the document in each subchapter turn.  The
  document below has one subchapter, two parts and one section; the section is
  written twice, once under each part.
\<close>

theorem leaf_written_per_part_counterexample:
  "length (subchapter_iterations two_part_title) = 1
   \<and> find_all ''DIV8'' two_part_title = [scenario_section]
   \<and> find_all ''DIV9'' two_part_title = []
   \<and> snd (walk two_part_title 29) = None
   \<and> map fst (json_writes (fst (walk two_part_title 29)))
       = [[''documents'', ''title_29'', ''subtitle_A'', ''chap_I'', ''subchapt_B'', ''part_10'', ''subpart_C'', ''1.json''],
          [''documents'', ''title_29'', ''subtitle_A'', ''chap_I'', ''subchapt_B'', ''part_11'', ''subpart_C'', ''1.json'']]"
  by code_simp

text \<open>
  C1 (amended): in every subchapter turn of the walk the part loop runs over all DIV5
  nodes of the whole title document and, inside it, the subpart loop over all DIV6
  nodes of the whole document, not over the subtree of the current subchapter or part.
  So every part is processed once per subchapter turn and every subpart once per
  subchapter turn and part: a walk that ends without an exception writes, for each
  subchapter turn and each part of the document, one file for every section or
  appendix found below every subpart node of the document.
\<close>

theorem walk_rescans_whole_document:
  assumes "snd (walk root title_num) = None"
  shows "length (json_writes (fst (walk root title_num)))
         = length (subchapter_iterations root)
           * (length (find_all ''DIV5'' root)
              * sum_list (map leaves_below (find_all ''DIV6'' root)))"
  using count_walk [OF assms] by (simp add: count_writes_def)

theorem walk_rescans_whole_document_witness:
  "snd (walk two_part_title 29) = None
   \<and> length (subchapter_iterations two_part_title) = 1
   \<and> length (find_all ''DIV5'' two_part_title) = 2
   \<and> sum_list (map leaves_below (find_all ''DIV6'' two_part_title)) = 1
   \<and> length (json_writes (fst (walk two_part_title 29))) = 2"
proof -
  have ok: "snd (walk two_part_title 29) = None" by code_simp
  have a: "length (subchapter_iterations two_part_title) = 1" by code_simp
  have b: "length (find_all ''DIV5'' two_part_title) = 2" by code_simp
  have c: "sum_list (map leaves_below (find_all ''DIV6'' two_part_title)) = 1" by code_simp
  from walk_rescans_whole_document [OF ok] a b c
  have "length (json_writes (fst (walk two_part_title 29))) = 2" by simp
  with ok a b c show ?thesis by blast
qed

section \<open>Where the walk writes\<close>

lemma split_slash_not_Nil: "split_slash s \<noteq> []"
  by (induction s) (auto split: list.splits)

lemma split_slash_no_slash: "CHR ''/'' \<notin> set a \<Longrightarrow> split_slash a = [a]"
  by (induction a) auto

lemma split_slash_append:
  "CHR ''/'' \<notin> set a \<Longrightarrow> split_slash (a @ CHR ''/'' # r) = a # split_slash r"
  by (induction a) auto

lemma split_slash_join:
  "cs \<noteq> [] \<Longrightarrow> \<forall>c\<in>set cs. CHR ''/'' \<notin> set c \<Longrightarrow> split_slash (join ''/'' cs) = cs"
proof (induction "''/''" cs rule: join.induct)
  case 1
  then show ?case by simp
next
  case (2 x)
  then show ?case by (simp add: split_slash_no_slash)
next
  case (3 x y ys)
  then show ?case by (simp add: split_slash_append)
qed

lemma digit_char_not_slash: "d < 10 \<Longrightarrow> digit_char d \<noteq> CHR ''/''"
proof
  assume d: "d < 10" and e: "digit_char d = CHR ''/''"
  have "(of_char (digit_char d) :: nat) = 48 + d"
    using d by (simp add: digit_char_def)
  with e show False by simp
qed

lemma digits_no_slash: "CHR ''/'' \<notin> set (digits n)"
proof (induction n rule: digits.induct)
  case (1 n)
  show ?case
  proof (cases "n < 10")
    case True
    with digit_char_not_slash [of n] show ?thesis by (subst digits.simps) auto
  next
    case False
    with 1 have "CHR ''/'' \<notin> set (digits (n div 10))" by simp
    moreover have "digit_char (n mod 10) \<noteq> CHR ''/''" by (rule digit_char_not_slash) simp
    ultimately show ?thesis using False by (subst digits.simps) auto
  qed
qed

lemma str_int_no_slash: "CHR ''/'' \<notin> set (str_int t)"
  by (simp add: str_int_def digits_no_slash del: digits.simps)

lemma hex_digit_not_slash: "d < 16 \<Longrightarrow> hex_digit d \<noteq> CHR ''/''"
proof -
  assume "d < 16"
  then have "hex_digit d \<in> set ''0123456789ABCDEF''"
    unfolding hex_digit_def by (intro nth_mem) simp
  then show ?thesis by auto
qed

lemma quote_byte_no_slash: "CHR ''/'' \<in> set (quote_byte c) \<Longrightarrow> c = CHR ''/''"
  using hex_digit_not_slash [OF of_char_div16, of c] hex_digit_not_slash [of "of_char c mod 16"]
  by (auto simp: quote_byte_def split: if_splits)

lemma quote_no_slash: "CHR ''/'' \<notin> set n \<Longrightarrow> CHR ''/'' \<notin> set (quote n)"
  by (induction n) (auto simp: quote_def dest: quote_byte_no_slash)

lemma json_name: "x @ ''.json'' \<noteq> []" "x @ ''.json'' \<noteq> ''.''"
proof -
  show "x @ ''.json'' \<noteq> []" by simp
  have "length (x @ ''.json'') \<noteq> length ''.''" by simp
  then show "x @ ''.json'' \<noteq> ''.''" by metis
qed

lemma section_file_parts:
  assumes "CHR ''/'' \<notin> set st \<union> set ch \<union> set sc \<union> set p \<union> set sp \<union> set n"
  shows "section_file t st ch sc p sp n =
           [''documents'', ''title_'' @ str_int t, ''subtitle_'' @ st, ''chap_'' @ ch,
            ''subchapt_'' @ sc, ''part_'' @ p, ''subpart_'' @ sp, quote n @ ''.json'']"
proof -
  let ?s = "''./documents/title_'' @ str_int t @ ''/subtitle_'' @ st @ ''/chap_''
     @ ch @ ''/subchapt_'' @ sc @ ''/part_'' @ p
     @ ''/subpart_'' @ sp @ ''/'' @ quote n @ ''.json''"
  let ?cs = "[''.'', ''documents'', ''title_'' @ str_int t, ''subtitle_'' @ st, ''chap_'' @ ch,
            ''subchapt_'' @ sc, ''part_'' @ p, ''subpart_'' @ sp, quote n @ ''.json'']"
  have j: "?s = join ''/'' ?cs" by simp
  have "\<forall>c\<in>set ?cs. CHR ''/'' \<notin> set c"
    using assms str_int_no_slash [of t] quote_no_slash [of n] by simp
  then have sp: "split_slash (join ''/'' ?cs) = ?cs"
    by (intro split_slash_join) simp_all
  have r: "take 2 ?s = ''./''" "take 1 ?s = ''.''" by simp_all
  have "Path ?s = filter (\<lambda>c. c \<noteq> [] \<and> c \<noteq> ''.'') ?cs"
    unfolding Path_def r unfolding j sp by simp
  also have "\<dots> = tl ?cs"
    using json_name [of "quote n"] by simp
  finally show ?thesis by (simp add: section_file_def)
qed

lemma section_file_inj:
  assumes "CHR ''/'' \<notin> set st \<union> set ch \<union> set sc \<union> set p \<union> set sp \<union> set n"
    and "CHR ''/'' \<notin> set st' \<union> set ch' \<union> set sc' \<union> set p' \<union> set sp' \<union> set n'"
    and "section_file t st ch sc p sp n = section_file t st' ch' sc' p' sp' n'"
  shows "st = st' \<and> ch = ch' \<and> sc = sc' \<and> p = p' \<and> sp = sp' \<and> n = n'"
proof -
  from assms(3) have e: "st = st' \<and> ch = ch' \<and> sc = sc' \<and> p = p' \<and> sp = sp' \<and> quote n = quote n'"
    unfolding section_file_parts [OF assms(1)] section_file_parts [OF assms(2)] by simp
  then have "n = n'" by (simp add: quote_inj)
  with e show ?thesis by simp
qed

text \<open>
  C3, as the claim states it, fails: the path is not injective in the codes.  Only the
  leaf code goes through \<open>quote\<close>, which leaves a slash, the ancestor codes are inserted
  as they are, and \<open>Path\<close> drops empty and \<open>.\<close> components.  The walk of the document
  below writes its two sections, whose subpart and leaf codes differ (subpart \<open>X\<close> with
  section \<open>Y/5\<close>, subpart \<open>X/Y\<close> with section \<open>5\<close>), to the same file.  A slash in an
  ancestor code alone is enough (part \<open>10/subpart_X\<close> with subpart \<open>Y\<close>, part \<open>10\<close> with
  subpart \<open>X/subpart_Y\<close>), and so is a slash in a leaf code alone (the leaf codes \<open>a\<close>,
  \<open>./a\<close> and \<open>/a\<close> under one chain).
\<close>

theorem path_collision_counterexample:
  "snd (walk slash_title 29) = None
   \<and> map fst (json_writes (fst (walk slash_title 29)))
       = [[''documents'', ''title_29'', ''subtitle_A'', ''chap_I'', ''subchapt_B'', ''part_10'',
           ''subpart_X'', ''Y'', ''5.json''],
          [''documents'', ''title_29'', ''subtitle_A'', ''chap_I'', ''subchapt_B'', ''part_10'',
           ''subpart_X'', ''Y'', ''5.json'']]
   \<and> map (\<lambda>fd. map_of (metadata (snd fd)) ''sub_part_number'') (json_writes (fst (walk slash_title 29)))
       = [Some (JStr ''X''), Some (JStr ''X/Y'')]
   \<and> map (\<lambda>fd. map_of (metadata (snd fd)) ''section_number'') (json_writes (fst (walk slash_title 29)))
       = [Some (JStr ''Y/5''), Some (JStr ''5'')]
   \<and> section_file 29 ''A'' ''I'' ''B'' ''10/subpart_X'' ''Y'' ''5''
       = section_file 29 ''A'' ''I'' ''B'' ''10'' ''X/subpart_Y'' ''5''
   \<and> section_file 29 ''A'' ''I'' ''B'' ''10'' ''X'' ''a''
       = section_file 29 ''A'' ''I'' ''B'' ''10'' ''X'' ''./a''
   \<and> section_file 29 ''A'' ''I'' ''B'' ''10'' ''X'' ''a''
       = section_file 29 ''A'' ''I'' ''B'' ''10'' ''X'' ''/a''"
  by code_simp

text \<open>
  C3 (amended): the output file path is a function of the title number, the codes of the
  subtitle, chapter, subchapter, part and subpart of the current loop turns and the
  leaf code, the same function for sections and appendices; it is injective on codes
  without a slash: when neither the five ancestor codes nor the leaf code of two writes
  of one title contain a slash, the two paths are the same only if the five ancestor
  codes and the leaf code are.
\<close>

theorem output_path_injective:
  assumes "CHR ''/'' \<notin> set st \<union> set ch \<union> set sc \<union> set p \<union> set sp \<union> set n"
    and "CHR ''/'' \<notin> set st' \<union> set ch' \<union> set sc' \<union> set p' \<union> set sp' \<union> set n'"
  shows "(section_file t st ch sc p sp n = section_file t st' ch' sc' p' sp' n'
            \<longleftrightarrow> st = st' \<and> ch = ch' \<and> sc = sc' \<and> p = p' \<and> sp = sp' \<and> n = n')
         \<and> appendix_file t st ch sc p sp n = section_file t st ch sc p sp n"
proof (rule conjI)
  show "section_file t st ch sc p sp n = section_file t st' ch' sc' p' sp' n'
          \<longleftrightarrow> st = st' \<and> ch = ch' \<and> sc = sc' \<and> p = p' \<and> sp = sp' \<and> n = n'"
  proof (rule iffI)
    assume "section_file t st ch sc p sp n = section_file t st' ch' sc' p' sp' n'"
    with assms show "st = st' \<and> ch = ch' \<and> sc = sc' \<and> p = p' \<and> sp = sp' \<and> n = n'"
      by (rule section_file_inj)
  next
    assume "st = st' \<and> ch = ch' \<and> sc = sc' \<and> p = p' \<and> sp = sp' \<and> n = n'"
    then show "section_file t st ch sc p sp n = section_file t st' ch' sc' p' sp' n'"
      by simp
  qed
next
  show "appendix_file t st ch sc p sp n = section_file t st ch sc p sp n"
    by (simp add: appendix_file_def section_file_def)
qed

theorem output_path_injective_witness:
  "CHR ''/'' \<notin> set ''A'' \<union> set ''I'' \<union> set ''B'' \<union> set ''1910'' \<union> set ''C'' \<union> set ''1''
   \<and> CHR ''/'' \<notin> set ''A'' \<union> set ''I'' \<union> set ''B'' \<union> set ''1910'' \<union> set ''C'' \<union> set ''2''
   \<and> section_file 29 ''A'' ''I'' ''B'' ''1910'' ''C'' ''1''
       \<noteq> section_file 29 ''A'' ''I'' ''B'' ''1910'' ''C'' ''2''
   \<and> appendix_file 29 ''A'' ''I'' ''B'' ''1910'' ''C'' ''1''
       = section_file 29 ''A'' ''I'' ''B'' ''1910'' ''C'' ''1''"
proof -
  have h1: "CHR ''/'' \<notin> set ''A'' \<union> set ''I'' \<union> set ''B'' \<union> set ''1910'' \<union> set ''C'' \<union> set ''1''"
    by simp
  have h2: "CHR ''/'' \<notin> set ''A'' \<union> set ''I'' \<union> set ''B'' \<union> set ''1910'' \<union> set ''C'' \<union> set ''2''"
    by simp
  note r = output_path_injective [OF h1 h2, of 29]
  from r have "section_file 29 ''A'' ''I'' ''B'' ''1910'' ''C'' ''1''
       \<noteq> section_file 29 ''A'' ''I'' ''B'' ''1910'' ''C'' ''2''"
    by simp
  with h1 h2 r show ?thesis by blast
qed

section \<open>What the walk writes\<close>

text \<open>
  C4, as the claim states it, fails for the subtitle: the metadata dict has no entry
  for the subtitle's code or description.  In the document written for the scenario
  with subtitle code \<open>A\<close> and subtitle heading \<open>Subtitle\<close>, no key names the subtitle and
  no value is its code or its description; the code occurs only inside the URL.
\<close>

theorem metadata_without_subtitle_counterexample:
  "json_writes (fst (walk (scenario_title ''A'' ''I'' ''B'' ''1910'' ''C'') 29))
     = [([''documents'', ''title_29'', ''subtitle_A'', ''chap_I'', ''subchapt_B'', ''part_1910'', ''subpart_C'', ''1.json''],
         scenario_document)]
   \<and> map fst (metadata scenario_document)
       = [''title_number'', ''title_description'', ''chapter_number'', ''chapter_description'',
          ''subchapter_number'', ''subchapter_description'', ''part_number'', ''part_description'',
          ''sub_part_number'', ''sub_part_description'', ''section_number'', ''section_description'',
          ''url'']
   \<and> map_of (metadata scenario_document) ''subtitle_number'' = None
   \<and> map_of (metadata scenario_document) ''subtitle_description'' = None
   \<and> JStr ''A'' \<notin> snd ` set (metadata scenario_document)
   \<and> JStr ''Subtitle'' \<notin> snd ` set (metadata scenario_document)"
  by code_simp

text \<open>
  C4 (amended): the metadata of every document the walk writes holds, in this order,
  the title's number and description, the code and description of the chapter, the
  subchapter, the part and the subpart of the loop turns that wrote it, the leaf's own
  code and description, and the deep-link URL; the subtitle has no entry of its own, its
  code enters only the URL.
\<close>

theorem written_metadata:
  assumes "(f, d) \<in> set (json_writes (fst (walk root title_num)))"
  shows "\<exists>title subtitle chapter subchapter part sub_part leaf st ch sc p sp n.
      find_tag ''DIV1'' root = Some title
    \<and> subtitle \<in> set (find_all ''DIV2'' root) \<and> get_attr ''N'' subtitle = Some st
    \<and> chapter \<in> set (find_all ''DIV3'' subtitle) \<and> get_attr ''N'' chapter = Some ch
    \<and> subchapter \<in> set (find_all ''DIV4'' chapter) \<and> get_attr ''N'' subchapter = Some sc
    \<and> part \<in> set (find_all ''DIV5'' root) \<and> get_attr ''N'' part = Some p
    \<and> sub_part \<in> set (find_all ''DIV6'' root) \<and> get_attr ''N'' sub_part = Some sp
    \<and> get_attr ''N'' leaf = Some n
    \<and> (leaf \<in> set (find_all ''DIV8'' sub_part)
          \<and> metadata d =
            [(''title_number'', JInt title_num),
             (''title_description'', json_of (description title)),
             (''chapter_number'', JStr ch),
             (''chapter_description'', json_of (description chapter)),
             (''subchapter_number'', JStr sc),
             (''subchapter_description'', json_of (description subchapter)),
             (''part_number'', JStr p),
             (''part_description'', json_of (description part)),
             (''sub_part_number'', JStr sp),
             (''sub_part_description'', json_of (description sub_part)),
             (''section_number'', JStr n),
             (''section_description'', json_of (description leaf)),
             (''url'', JStr (get_ecfr_link_to_section title_num st ch p sp n))]
        \<or> leaf \<in> set (find_all ''DIV9'' sub_part)
          \<and> metadata d =
            [(''title_number'', JInt title_num),
             (''title_description'', json_of (description title)),
             (''chapter_number'', JStr ch),
             (''chapter_description'', json_of (description chapter)),
             (''subchapter_number'', JStr sc),
             (''subchapter_description'', json_of (description subchapter)),
             (''part_number'', JStr p),
             (''part_description'', json_of (description part)),
             (''sub_part_number'', JStr sp),
             (''sub_part_description'', json_of (description sub_part)),
             (''appendix_number'', JStr n),
             (''appendix_description'', json_of (description leaf)),
             (''url'', JStr (get_ecfr_link_to_appendix title_num st ch p sp n))])"
proof -
  from assms have w: "WriteJson f d \<in> set (fst (walk root title_num))"
    by (simp add: in_json_writes)
  from walk_write [OF w] obtain title subtitle where
    t: "find_tag ''DIV1'' root = Some title" and s: "subtitle \<in> set (find_all ''DIV2'' root)"
    and w1: "WriteJson f d \<in> set (fst (walk_subtitle root title_num (description title) subtitle))"
    by blast
  from walk_subtitle_write [OF w1] obtain st chap where
    st: "get_attr ''N'' subtitle = Some st" and c: "chap \<in> set (find_all ''DIV3'' subtitle)"
    and w2: "WriteJson f d \<in> set (fst (walk_chapter root title_num (description title) st chap))"
    by blast
  from walk_chapter_write [OF w2] obtain ch subchapter where
    ch: "get_attr ''N'' chap = Some ch" and sc: "subchapter \<in> set (find_all ''DIV4'' chap)"
    and w3: "WriteJson f d \<in> set (fst (walk_subchapter root title_num (description title) st ch
               (description chap) subchapter))"
    by blast
  from walk_subchapter_write [OF w3] obtain scn prt where
    scn: "get_attr ''N'' subchapter = Some scn" and p: "prt \<in> set (find_all ''DIV5'' root)"
    and w4: "WriteJson f d \<in> set (fst (walk_part root title_num (description title) st ch
               (description chap) scn (description subchapter) prt))"
    by blast
  from walk_part_write [OF w4] obtain pn sub_part where
    pn: "get_attr ''N'' prt = Some pn" and sp: "sub_part \<in> set (find_all ''DIV6'' root)"
    and w5: "WriteJson f d \<in> set (fst (walk_sub_part title_num (description title) st ch
               (description chap) scn (description subchapter) pn (description prt) sub_part))"
    by blast
  from walk_sub_part_write [OF w5] obtain spn where
    spn: "get_attr ''N'' sub_part = Some spn"
    and w6: "(\<exists>s\<in>set (find_all ''DIV8'' sub_part).
            WriteJson f d \<in> set (fst (walk_section title_num (description title) st ch
               (description chap) scn (description subchapter) pn (description prt) spn
               (description sub_part) s)))
        \<or> (\<exists>a\<in>set (find_all ''DIV9'' sub_part).
            WriteJson f d \<in> set (fst (walk_appendix title_num (description title) st ch
               (description chap) scn (description subchapter) pn (description prt) spn
               (description sub_part) a)))"
    by blast
  from w6 show ?thesis
  proof
    assume "\<exists>s\<in>set (find_all ''DIV8'' sub_part).
            WriteJson f d \<in> set (fst (walk_section title_num (description title) st ch
               (description chap) scn (description subchapter) pn (description prt) spn
               (description sub_part) s))"
    then obtain leaf where l: "leaf \<in> set (find_all ''DIV8'' sub_part)"
      and w7: "WriteJson f d \<in> set (fst (walk_section title_num (description title) st ch
               (description chap) scn (description subchapter) pn (description prt) spn
               (description sub_part) leaf))"
      by blast
    from walk_section_write [OF w7] obtain n where n: "get_attr ''N'' leaf = Some n"
      and m: "metadata d =
            [(''title_number'', JInt title_num),
             (''title_description'', json_of (description title)),
             (''chapter_number'', JStr ch),
             (''chapter_description'', json_of (description chap)),
             (''subchapter_number'', JStr scn),
             (''subchapter_description'', json_of (description subchapter)),
             (''part_number'', JStr pn),
             (''part_description'', json_of (description prt)),
             (''sub_part_number'', JStr spn),
             (''sub_part_description'', json_of (description sub_part)),
             (''section_number'', JStr n),
             (''section_description'', json_of (description leaf)),
             (''url'', JStr (get_ecfr_link_to_section title_num st ch pn spn n))]"
      by auto
    from t s st c ch sc scn p pn sp spn l n m show ?thesis by blast
  next
    assume "\<exists>a\<in>set (find_all ''DIV9'' sub_part).
            WriteJson f d \<in> set (fst (walk_appendix title_num (description title) st ch
               (description chap) scn (description subchapter) pn (description prt) spn
               (description sub_part) a))"
    then obtain leaf where l: "leaf \<in> set (find_all ''DIV9'' sub_part)"
      and w7: "WriteJson f d \<in> set (fst (walk_appendix title_num (description title) st ch
               (description chap) scn (description subchapter) pn (description prt) spn
               (description sub_part) leaf))"
      by blast
    from walk_appendix_write [OF w7] obtain n where n: "get_attr ''N'' leaf = Some n"
      and m: "metadata d =
            [(''title_number'', JInt title_num),
             (''title_description'', json_of (description title)),
             (''chapter_number'', JStr ch),
             (''chapter_description'', json_of (description chap)),
             (''subchapter_number'', JStr scn),
             (''subchapter_description'', json_of (description subchapter)),
             (''part_number'', JStr pn),
             (''part_description'', json_of (description prt)),
             (''sub_part_number'', JStr spn),
             (''sub_part_description'', json_of (description sub_part)),
             (''appendix_number'', JStr n),
             (''appendix_description'', json_of (description leaf)),
             (''url'', JStr (get_ecfr_link_to_appendix title_num st ch pn spn n))]"
      by auto
    from t s st c ch sc scn p pn sp spn l n m show ?thesis by blast
  qed
qed

theorem written_metadata_witness:
  "([''documents'', ''title_29'', ''subtitle_A'', ''chap_I'', ''subchapt_B'', ''part_1910'', ''subpart_C'', ''1.json''], scenario_document)
     \<in> set (json_writes (fst (walk (scenario_title ''A'' ''I'' ''B'' ''1910'' ''C'') 29)))
   \<and> (map fst (metadata scenario_document)
        = [''title_number'', ''title_description'', ''chapter_number'', ''chapter_description'',
           ''subchapter_number'', ''subchapter_description'', ''part_number'', ''part_description'',
           ''sub_part_number'', ''sub_part_description'', ''section_number'', ''section_description'',
           ''url'']
      \<or> map fst (metadata scenario_document)
        = [''title_number'', ''title_description'', ''chapter_number'', ''chapter_description'',
           ''subchapter_number'', ''subchapter_description'', ''part_number'', ''part_description'',
           ''sub_part_number'', ''sub_part_description'', ''appendix_number'', ''appendix_description'',
           ''url''])"
proof -
  have h: "([''documents'', ''title_29'', ''subtitle_A'', ''chap_I'', ''subchapt_B'', ''part_1910'', ''subpart_C'', ''1.json''], scenario_document)
     \<in> set (json_writes (fst (walk (scenario_title ''A'' ''I'' ''B'' ''1910'' ''C'') 29)))"
    by code_simp
  from written_metadata [OF h] have
    "map fst (metadata scenario_document)
        = [''title_number'', ''title_description'', ''chapter_number'', ''chapter_description'',
           ''subchapter_number'', ''subchapter_description'', ''part_number'', ''part_description'',
           ''sub_part_number'', ''sub_part_description'', ''section_number'', ''section_description'',
           ''url'']
      \<or> map fst (metadata scenario_document)
        = [''title_number'', ''title_description'', ''chapter_number'', ''chapter_description'',
           ''subchapter_number'', ''subchapter_description'', ''part_number'', ''part_description'',
           ''sub_part_number'', ''sub_part_description'', ''appendix_number'', ''appendix_description'',
           ''url'']"
    by (elim exE conjE disjE) simp_all
  with h show ?thesis by blast
qed

end
